theory Spec2Isabelle
  imports Complex_Main "HOL-Library.Word"
begin

section \<open>rtl\_map and rtl\_fftx: data model\<close>

text \<open>
  The repository holds two variants of one program, \<^verbatim>\<open>rtl_map.c\<close> and
  \<^verbatim>\<open>rtl_fftx.c\<close>. Both keep their configuration and working data in file-level
  variables; the model bundles them in the record \<open>globals\<close>, passes it explicitly and
  returns the effects on the outside world (streams, the receiver, the process) as a
  list of events. The leading underscore of the C names (\<^verbatim>\<open>_gain\<close>,
  \<^verbatim>\<open>_filename\<close>, ...) is dropped.
\<close>

type_synonym byte = "8 word"

datatype variant = RtlMap | RtlFftx

text \<open>\<^verbatim>\<open>#define NUM_READ 512\<close> and \<^verbatim>\<open>INT_MAX\<close> of a 32-bit \<^verbatim>\<open>int\<close>.\<close>

definition NUM_READ :: nat where
  "NUM_READ = 512"

definition INT_MAX :: int where
  "INT_MAX = 2147483647"

definition INT_MIN :: int where
  "INT_MIN = - 2147483648"

text \<open>
  A C \<^verbatim>\<open>float\<close>/\<^verbatim>\<open>double\<close> value as far as the program can produce it in
  \<^verbatim>\<open>db\<close>: a finite number, minus infinity (\<^verbatim>\<open>log10(0)\<close>) or a NaN
  (\<^verbatim>\<open>log10\<close> of a negative number). Finite values are real numbers: rounding to the
  binary format is not part of the model.
\<close>

datatype fval = Fin real | NegInf | NaN

text \<open>\<^verbatim>\<open>typedef struct SampleBin { float val; int id; } Bin;\<close>\<close>

record Bin =
  bin_val :: fval
  bin_id :: int

datatype stream = Stdout | Stderr | RegularFile string | GnuplotPipe

datatype log_level = INFO | ERROR | FATAL

text \<open>A variadic argument of a \<^verbatim>\<open>printf\<close>-family call, after default promotion.\<close>

datatype parg = AInt int | ADbl fval | AStr string

text \<open>
  What the program does to the outside world, call by call: writes and flushes on a
  stream, log lines (\<^verbatim>\<open>print_log\<close>), \<^verbatim>\<open>popen\<close> and \<^verbatim>\<open>fopen\<close> with their
  arguments, \<^verbatim>\<open>pclose\<close> and \<^verbatim>\<open>fclose\<close>, \<^verbatim>\<open>usleep\<close>, and the calls of the rtl-sdr
  driver (\<open>ReadAsync buf_num buf_len\<close> is a request for batches of \<open>buf_len\<close> bytes).
\<close>

datatype event =
    Printf stream string "parg list"
  | Flush stream
  | Log log_level string "parg list"
  | POpen string string
  | FOpen string string
  | PClose stream
  | FClose stream
  | USleep int
  | CancelAsync
  | ReadAsync nat nat
  | SetTunerGainMode int
  | SetTunerGain int
  | SetOffsetTuning int
  | SetCenterFreq int
  | SetSampleRate int
  | ResetBuffer

text \<open>Undefined behaviour the C code can reach, kept as values.\<close>

datatype ub =
    BufferOverread
  | FloatToIntRange
  | SignedOverflow
  | ArrayBounds
  | NullStream
  | VlaSize

text \<open>
  The file-level variables that outlive a call. The scratch variables \<^verbatim>\<open>n\<close>,
  \<^verbatim>\<open>out_r\<close>, \<^verbatim>\<open>out_i\<close>, \<^verbatim>\<open>amp\<close> and \<^verbatim>\<open>db\<close> are written before they are read
  in every call and appear as local values of the functions below; the flags are
  \<^verbatim>\<open>int\<close> variables that only ever hold 0 or 1. A null pointer is \<open>None\<close>.
\<close>

record globals =
  read_count :: int
  center_freq :: int
  dev_id :: int
  samp_rate :: int
  gain :: int
  refresh_rate :: int
  num_read :: int
  use_gnuplot :: bool
  cont_read :: bool
  mag_graph :: bool
  offset_tuning :: bool
  log_colors :: bool
  write_file :: bool
  filename :: "string option"
  file_ptr :: "stream option"
  gnuplotPipe :: "stream option"
  dev :: "int option"
  sample_bin :: "Bin list"

text \<open>
  How a piece of the program ends: it returns a value, it terminates the process
  (\<^verbatim>\<open>exit\<close>, with the globals at that moment), or it reaches undefined behaviour.
  Every function of the model returns the events it produced together with such a
  status.
\<close>

datatype 'a status = Ok 'a | Exit int globals | Undefined ub

type_synonym 'a result = "event list \<times> 'a status"

definition seq :: "'a result \<Rightarrow> ('a \<Rightarrow> 'b result) \<Rightarrow> 'b result" where
  "seq m f =
     (case m of
        (es, Ok a) \<Rightarrow> (case f a of (es', r) \<Rightarrow> (es @ es', r))
      | (es, Exit c g) \<Rightarrow> (es, Exit c g)
      | (es, Undefined u) \<Rightarrow> (es, Undefined u))"

definition events :: "'a result \<Rightarrow> event list" where
  "events r = fst r"

section \<open>The spectrum transform: \<^verbatim>\<open>create_fft\<close>\<close>

subsection \<open>I/Q bytes to complex samples\<close>

text \<open>
  \<^verbatim>\<open>rtl_map.c\<close> subtracts \<^verbatim>\<open>127.34\<close>, \<^verbatim>\<open>rtl_fftx.c\<close> subtracts \<^verbatim>\<open>127\<close>.
\<close>

definition offset :: "variant \<Rightarrow> real" where
  "offset v = (case v of RtlMap \<Rightarrow> 12734 / 100 | RtlFftx \<Rightarrow> 127)"

text \<open>
  \<^verbatim>\<open>(buf[n]-127.34) + (buf[n+1]-127.34) * I\<close>, a byte being an unsigned value
  in \<open>[0, 255]\<close>.
\<close>

definition iq_to_complex :: "variant \<Rightarrow> byte \<Rightarrow> byte \<Rightarrow> complex" where
  "iq_to_complex v a b = Complex (real (unat a) - offset v) (real (unat b) - offset v)"

text \<open>
  The conversion loop
  \<^verbatim>\<open>n = 0; for (int i=0; i<sample_c; i+=2){ in[i] = ...buf[n]...buf[n+1]...; n++; }\<close>.
  The array \<^verbatim>\<open>in\<close> comes from \<^verbatim>\<open>fftw_malloc\<close> and the program never initialises
  it: the model takes its content when the loop starts as the argument \<open>inp\<close> (a list
  of length \<open>sample_c\<close>). A read beyond the end of \<open>buf\<close> is undefined behaviour.
\<close>

function fill_in :: "variant \<Rightarrow> nat \<Rightarrow> byte list \<Rightarrow> nat \<Rightarrow> nat \<Rightarrow> complex list \<Rightarrow> ub + complex list" where
  "fill_in v sample_c buf i n inp =
     (if i < sample_c then
        (if n + 1 < length buf then
           fill_in v sample_c buf (i + 2) (n + 1) (inp[i := iq_to_complex v (buf ! n) (buf ! (n + 1))])
         else Inl BufferOverread)
      else Inr inp)"
  by pat_completeness auto
termination
  by (relation "measure (\<lambda>(v, sample_c, buf, i, n, inp). sample_c - i)") auto

declare fill_in.simps [simp del]

subsection \<open>The transform itself\<close>

text \<open>
  \<^verbatim>\<open>fftw_execute\<close> on a plan made by \<^verbatim>\<open>fftw_plan_dft_1d(sample_c, in, out, FFTW_FORWARD, ...)\<close>
  belongs to the external FFTW library. It is modelled by what that library documents
  for a forward transform: the unnormalised discrete Fourier transform
  \<open>out[k] = \<Sum>j<N. in[j] * exp (- 2 pi i j k / N)\<close>, over the reals.
\<close>

definition dft :: "complex list \<Rightarrow> complex list" where
  "dft xs = map (\<lambda>k. \<Sum>j\<leftarrow>[0..<length xs]. xs ! j * cis (- (2 * pi * real (j * k) / real (length xs))))
              [0..<length xs]"

subsection \<open>Magnitude and level of one bin\<close>

text \<open>
  \<^verbatim>\<open>out_r\<close> and \<^verbatim>\<open>out_i\<close> are declared \<^verbatim>\<open>int\<close>: the assignment converts the
  \<^verbatim>\<open>double\<close> product to \<^verbatim>\<open>int\<close>, which truncates towards zero and is undefined when
  the truncated value does not fit.
\<close>

definition double_to_int :: "real \<Rightarrow> ub + int" where
  "double_to_int x =
     (let t = (if 0 \<le> x then \<lfloor>x\<rfloor> else \<lceil>x\<rceil>)
      in if INT_MIN \<le> t \<and> t \<le> INT_MAX then Inr t else Inl FloatToIntRange)"

definition int_add :: "int \<Rightarrow> int \<Rightarrow> ub + int" where
  "int_add a b = (if INT_MIN \<le> a + b \<and> a + b \<le> INT_MAX then Inr (a + b) else Inl SignedOverflow)"

text \<open>
  \<^verbatim>\<open>out_r = creal(out[i]) * creal(out[i]); out_i = cimag(out[i]) * cimag(out[i]);
  amp = sqrt(out_r + out_i);\<close> (\<^verbatim>\<open>rtl_fftx.c\<close> writes the squares with \<^verbatim>\<open>pow(., 2)\<close>.)
\<close>

definition compute_amp :: "complex \<Rightarrow> ub + real" where
  "compute_amp z =
     (case double_to_int (Re z * Re z) of
        Inl u \<Rightarrow> Inl u
      | Inr out_r \<Rightarrow>
          (case double_to_int (Im z * Im z) of
             Inl u \<Rightarrow> Inl u
           | Inr out_i \<Rightarrow>
               (case int_add out_r out_i of
                  Inl u \<Rightarrow> Inl u
                | Inr s \<Rightarrow> Inr (sqrt (real_of_int s)))))"

text \<open>\<^verbatim>\<open>log10\<close> of the C library: minus infinity at zero, NaN below.\<close>

definition c_log10 :: "real \<Rightarrow> fval" where
  "c_log10 x = (if x < 0 then NaN else if x = 0 then NegInf else Fin (log 10 x))"

definition fmul :: "real \<Rightarrow> fval \<Rightarrow> fval" where
  "fmul c x = (case x of Fin r \<Rightarrow> Fin (c * r)
                | NegInf \<Rightarrow> (if 0 < c then NegInf else NaN)
                | NaN \<Rightarrow> NaN)"

text \<open>\<^verbatim>\<open>if (!_mag_graph) db = 10 * log10(amp); else db = amp;\<close>\<close>

definition compute_db :: "bool \<Rightarrow> real \<Rightarrow> fval" where
  "compute_db mag amp = (if \<not> mag then fmul 10 (c_log10 amp) else Fin amp)"

subsection \<open>Writing to the sinks\<close>

text \<open>
  \<^verbatim>\<open>fprintf(stream, format, ...)\<close> and \<^verbatim>\<open>vfprintf\<close>: the call is recorded with its format
  string and its arguments. A null stream is undefined behaviour. What text a recorded
  call produces is the business of \<open>render\<close> below.
\<close>

definition skip :: "unit result" where
  "skip = ([], Ok ())"

definition fprintf :: "stream option \<Rightarrow> string \<Rightarrow> parg list \<Rightarrow> unit result" where
  "fprintf fp fmt args =
     (case fp of None \<Rightarrow> ([], Undefined NullStream) | Some s \<Rightarrow> ([Printf s fmt args], Ok ()))"

definition fflush :: "stream option \<Rightarrow> unit result" where
  "fflush fp = (case fp of None \<Rightarrow> ([], Undefined NullStream) | Some s \<Rightarrow> ([Flush s], Ok ()))"

text \<open>\<^verbatim>\<open>gnuplot_exec(format, ...)\<close> is \<^verbatim>\<open>vfprintf(gnuplotPipe, format, vargs)\<close>.\<close>

definition gnuplot_exec :: "globals \<Rightarrow> string \<Rightarrow> parg list \<Rightarrow> unit result" where
  "gnuplot_exec g fmt args = fprintf (gnuplotPipe g) fmt args"

text \<open>\<^verbatim>\<open>print_log(level, format, ...)\<close> writes a time stamp, the level and the message to stderr.\<close>

definition print_log :: "log_level \<Rightarrow> string \<Rightarrow> parg list \<Rightarrow> unit result" where
  "print_log level fmt args = ([Log level fmt args], Ok ())"

definition TAB :: char where
  "TAB = CHR 0x09"

definition NL :: char where
  "NL = CHR 0x0A"

text \<open>The format string \<^verbatim>\<open>"%d<TAB>%f\n"\<close> that both sinks are given.\<close>

definition bin_format :: string where
  "bin_format = ''%d'' @ [TAB] @ ''%f'' @ [NL]"

definition plot_directive :: string where
  "plot_directive = ''plot '' @ [CHR 0x27] @ ''-'' @ [CHR 0x27] @ '' smooth frequency with linespoints lt -1 notitle'' @ [NL]"

subsection \<open>The loop over the transform's outputs\<close>

text \<open>
  One pass of \<^verbatim>\<open>for (int i=0; i < sample_c; i++)\<close>: magnitude, level, the line for the
  file, the line for gnuplot, and the entry of \<^verbatim>\<open>sample_bin\<close>. The loop changes no global
  but \<^verbatim>\<open>sample_bin\<close> (and the scratch variables \<^verbatim>\<open>out_r\<close>, \<^verbatim>\<open>out_i\<close>,
  \<^verbatim>\<open>amp\<close>, \<^verbatim>\<open>db\<close>, which are written before they are read), so it threads that
  array. A write beyond the array's end is undefined behaviour.
\<close>

definition bin_body :: "globals \<Rightarrow> complex list \<Rightarrow> nat \<Rightarrow> Bin list \<Rightarrow> Bin list result" where
  "bin_body g out i sb =
     (case compute_amp (out ! i) of
        Inl u \<Rightarrow> ([], Undefined u)
      | Inr amp \<Rightarrow>
          (let db = compute_db (mag_graph g) amp in
           seq (if write_file g then fprintf (file_ptr g) bin_format [AInt (int i + 1), ADbl db] else skip)
             (\<lambda>_. seq (if use_gnuplot g then gnuplot_exec g bin_format [ADbl db, AInt (int i + 1)] else skip)
               (\<lambda>_. if i < length sb
                     then ([], Ok (sb[i := \<lparr>bin_val = db, bin_id = int i\<rparr>]))
                     else ([], Undefined ArrayBounds)))))"

function emit_bins :: "globals \<Rightarrow> nat \<Rightarrow> complex list \<Rightarrow> nat \<Rightarrow> Bin list \<Rightarrow> Bin list result" where
  "emit_bins g sample_c out i sb =
     (if i < sample_c then seq (bin_body g out i sb) (\<lambda>sb'. emit_bins g sample_c out (i + 1) sb')
      else ([], Ok sb))"
  by pat_completeness auto
termination
  by (relation "measure (\<lambda>(g, sample_c, out, i, sb). sample_c - i)") auto

declare emit_bins.simps [simp del]

subsection \<open>\<^verbatim>\<open>create_fft(sample_c, buf)\<close>\<close>

text \<open>
  The log line before the plot: \<^verbatim>\<open>rtl_map.c\<close> has two messages, \<^verbatim>\<open>rtl_fftx.c\<close> one.
\<close>

definition create_fft_log :: "variant \<Rightarrow> globals \<Rightarrow> unit result" where
  "create_fft_log v g =
     (case v of
        RtlMap \<Rightarrow>
          (if \<not> cont_read g \<and> use_gnuplot g
           then print_log INFO (''Creating FFT graph from samples using gnuplot...'' @ [NL]) []
           else if \<not> cont_read g \<and> \<not> use_gnuplot g
           then print_log INFO (''Reading samples...'' @ [NL]) []
           else skip)
      | RtlFftx \<Rightarrow>
          (if \<not> cont_read g
           then print_log INFO (''Creating FFT graph from samples using gnuplot...'' @ [NL]) []
           else skip))"

text \<open>
  \<open>mem\<close> is the content of the array \<^verbatim>\<open>in\<close> when the conversion loop starts: what
  \<^verbatim>\<open>fftw_malloc\<close> returned, or what planning with \<^verbatim>\<open>FFTW_MEASURE\<close> left there.
  \<^verbatim>\<open>sample_c\<close> is a natural number: the callers pass \<^verbatim>\<open>n_read\<close>. Only \<^verbatim>\<open>rtl_map.c\<close>
  counts the call in \<^verbatim>\<open>read_count\<close>; the increment of an \<^verbatim>\<open>int\<close> at \<^verbatim>\<open>INT_MAX\<close> is
  undefined.
\<close>

definition create_fft :: "variant \<Rightarrow> (nat \<Rightarrow> complex) \<Rightarrow> nat \<Rightarrow> byte list \<Rightarrow> globals \<Rightarrow> globals result" where
  "create_fft v mem sample_c buf g =
     (case fill_in v sample_c buf 0 0 (map mem [0..<sample_c]) of
        Inl u \<Rightarrow> ([], Undefined u)
      | Inr inp \<Rightarrow>
          seq (create_fft_log v g)
            (\<lambda>_. seq (if use_gnuplot g then gnuplot_exec g plot_directive [] else skip)
              (\<lambda>_. seq (emit_bins g sample_c (dft inp) 0 (sample_bin g))
                (\<lambda>sb. seq (if use_gnuplot g
                           then seq (gnuplot_exec g (''e'' @ [NL]) []) (\<lambda>_. fflush (gnuplotPipe g))
                           else skip)
                  (\<lambda>_. case v of
                         RtlMap \<Rightarrow>
                           (if read_count g < INT_MAX
                            then ([], Ok (g\<lparr>sample_bin := sb, read_count := read_count g + 1\<rparr>))
                            else ([], Undefined SignedOverflow))
                       | RtlFftx \<Rightarrow> ([], Ok (g\<lparr>sample_bin := sb\<rparr>)))))))"

section \<open>Start-up, acquisition loop and shutdown\<close>

text \<open>
  What the program meets outside itself: the results of \<^verbatim>\<open>popen\<close> (the pipe, if it
  opens, is the stream \<open>GnuplotPipe\<close>), of the rtl-sdr driver's calls and of
  \<^verbatim>\<open>fopen\<close> (the file \<open>name\<close>, if it opens, is the stream \<open>RegularFile name\<close>), the
  batch the driver hands to the \<open>k\<close>-th call of the callback, and the content that
  \<^verbatim>\<open>create_fft\<close> finds in its input array \<^verbatim>\<open>in\<close> in that call.
\<close>

record env =
  popen_ok :: bool
  device_count :: nat
  device_name :: "nat \<Rightarrow> string"
  open_result :: int
  tuner_gains :: "int list"
  reset_result :: int
  fopen_ok :: bool
  source :: "nat \<Rightarrow> byte list"
  heap :: "nat \<Rightarrow> nat \<Rightarrow> complex"

subsection \<open>The globals at program start and \<^verbatim>\<open>parse_args\<close>\<close>

text \<open>
  The static initialisers; \<open>nr\<close> stands for the macro \<^verbatim>\<open>NUM_READ\<close>, which the program
  sets to 512 (\<open>NUM_READ\<close> above). \<^verbatim>\<open>rtl_fftx.c\<close> has no \<^verbatim>\<open>read_count\<close> and no
  \<^verbatim>\<open>_num_read\<close>; its model never reads them.
\<close>

definition initial_globals :: "nat \<Rightarrow> globals" where
  "initial_globals nr =
     \<lparr>read_count = 0, center_freq = 0, dev_id = 0, samp_rate = int nr * 4000, gain = 14,
      refresh_rate = 500, num_read = INT_MAX, use_gnuplot = True, cont_read = False,
      mag_graph = False, offset_tuning = True, log_colors = True, write_file = False,
      filename = None, file_ptr = None, gnuplotPipe = None, dev = None,
      sample_bin = replicate nr \<lparr>bin_val = Fin 0, bin_id = 0\<rparr>\<rparr>"

text \<open>
  The command line as \<^verbatim>\<open>getopt\<close> delivers it, option by option, with the numbers
  already converted (\<^verbatim>\<open>atoi\<close>; for \<^verbatim>\<open>-g\<close> the tenths of a dB that
  \<^verbatim>\<open>(int)(atof(optarg) * 10)\<close> gives). \<open>Opt_other\<close> is any option that
  \<^verbatim>\<open>getopt\<close> does not know.
\<close>

datatype opt =
    Opt_d int | Opt_s int | Opt_f int | Opt_g int | Opt_r int | Opt_n int
  | Opt_D | Opt_C | Opt_M | Opt_O | Opt_T | Opt_h | Opt_other

text \<open>
  \<^verbatim>\<open>print_usage\<close>: \<^verbatim>\<open>fprintf(stderr, "%s", usage); exit(0);\<close>. The usage text itself is
  abbreviated to the string \<open>''usage''\<close>.
\<close>

definition print_usage :: "globals \<Rightarrow> globals result" where
  "print_usage g = ([Printf Stderr ''%s'' [AStr ''usage'']], Exit 0 g)"

fun parse_opt :: "variant \<Rightarrow> opt \<Rightarrow> globals \<Rightarrow> globals result" where
  "parse_opt v (Opt_d x) g = ([], Ok (g\<lparr>dev_id := x\<rparr>))"
| "parse_opt v (Opt_s x) g = ([], Ok (g\<lparr>samp_rate := x\<rparr>))"
| "parse_opt v (Opt_f x) g = ([], Ok (g\<lparr>center_freq := x\<rparr>))"
| "parse_opt v (Opt_g x) g = ([], Ok (g\<lparr>gain := x\<rparr>))"
| "parse_opt v (Opt_r x) g = ([], Ok (g\<lparr>refresh_rate := x\<rparr>))"
| "parse_opt v (Opt_n x) g =
     (case v of RtlMap \<Rightarrow> ([], Ok (g\<lparr>num_read := x\<rparr>)) | RtlFftx \<Rightarrow> print_usage g)"
| "parse_opt v Opt_D g = ([], Ok (g\<lparr>use_gnuplot := False\<rparr>))"
| "parse_opt v Opt_C g = ([], Ok (g\<lparr>cont_read := True\<rparr>))"
| "parse_opt v Opt_M g = ([], Ok (g\<lparr>mag_graph := True\<rparr>))"
| "parse_opt v Opt_O g = ([], Ok (g\<lparr>offset_tuning := False\<rparr>))"
| "parse_opt v Opt_T g = ([], Ok (g\<lparr>log_colors := False\<rparr>))"
| "parse_opt v Opt_h g = print_usage g"
| "parse_opt v Opt_other g = print_usage g"

fun parse_opts :: "variant \<Rightarrow> opt list \<Rightarrow> globals \<Rightarrow> globals result" where
  "parse_opts v [] g = ([], Ok g)"
| "parse_opts v (x # xs) g = seq (parse_opt v x g) (parse_opts v xs)"

text \<open>
  \<^verbatim>\<open>parse_args\<close>: the options, the check for the mandatory centre frequency, and
  \<^verbatim>\<open>_filename = argv[optind]\<close> (\<open>None\<close> is the null pointer that ends \<^verbatim>\<open>argv\<close>).
\<close>

definition parse_args :: "variant \<Rightarrow> opt list \<Rightarrow> string option \<Rightarrow> globals \<Rightarrow> globals result" where
  "parse_args v opts fname g =
     seq (parse_opts v opts g)
       (\<lambda>g1. if center_freq g1 = 0 then print_usage g1 else ([], Ok (g1\<lparr>filename := fname\<rparr>)))"

subsection \<open>\<^verbatim>\<open>do_exit\<close> and the signal handler\<close>

definition pclose :: "stream option \<Rightarrow> unit result" where
  "pclose fp = (case fp of None \<Rightarrow> ([], Undefined NullStream) | Some s \<Rightarrow> ([PClose s], Ok ()))"

definition fclose :: "stream option \<Rightarrow> unit result" where
  "fclose fp = (case fp of None \<Rightarrow> ([], Undefined NullStream) | Some s \<Rightarrow> ([FClose s], Ok ()))"

text \<open>
  \<^verbatim>\<open>rtlsdr_cancel_async(dev); if(_use_gnuplot) pclose(gnuplotPipe);
  if(_filename != NULL && strcmp(_filename, "-")) fclose(file); exit(0);\<close>
\<close>

definition do_exit :: "globals \<Rightarrow> unit result" where
  "do_exit g =
     seq ([CancelAsync], Ok ())
       (\<lambda>_. seq (if use_gnuplot g then pclose (gnuplotPipe g) else skip)
         (\<lambda>_. seq (if filename g \<noteq> None \<and> filename g \<noteq> Some ''-'' then fclose (file_ptr g) else skip)
           (\<lambda>_. ([], Exit 0 g))))"

definition sig_handler :: "globals \<Rightarrow> unit result" where
  "sig_handler g =
     seq (print_log INFO (''Signal caught, exiting...'' @ [NL]) []) (\<lambda>_. do_exit g)"

subsection \<open>\<^verbatim>\<open>configure_gnuplot\<close>\<close>

definition SQ :: char where
  "SQ = CHR 0x27"

definition xtics_format :: string where
  "xtics_format =
     ''set xtics ('' @ [SQ] @ ''%.1f'' @ [SQ] @ '' 1, '' @ [SQ] @ ''%.1f'' @ [SQ] @ '' 256, ''
       @ [SQ] @ ''%.1f'' @ [SQ] @ '' 512)'' @ [NL]"

definition title_command :: "variant \<Rightarrow> string" where
  "title_command v =
     ''set title '' @ [SQ] @ (case v of RtlMap \<Rightarrow> ''rtl-map'' | RtlFftx \<Rightarrow> ''RTL-FFTX'') @ [SQ]
       @ '' enhanced'' @ [NL]"

definition xlabel_command :: "variant \<Rightarrow> string" where
  "xlabel_command v =
     ''set xlabel '' @ [SQ] @ (case v of RtlMap \<Rightarrow> ''Frequency (MHz)'' | RtlFftx \<Rightarrow> ''Frequency (kHz)'')
       @ [SQ] @ [NL]"

definition ylabel_command :: string where
  "ylabel_command = ''set ylabel '' @ [SQ] @ ''Amplitude (dB)'' @ [SQ] @ [NL]"

definition configure_gnuplot :: "variant \<Rightarrow> nat \<Rightarrow> env \<Rightarrow> globals \<Rightarrow> globals result" where
  "configure_gnuplot v nr e g =
     (if \<not> use_gnuplot g then ([], Ok g)
      else if \<not> popen_ok e
      then ([POpen ''gnuplot -persistent'' ''w'', Log ERROR ''Failed to open gnuplot pipe.'' []], Exit 1 g)
      else
        (let g1 = g\<lparr>gnuplotPipe := Some GnuplotPipe\<rparr>;
             center_mhz = real_of_int (center_freq g1) / 10 ^ 6;
             step_size = (real nr * 10 ^ 3) / 10 ^ 6
         in seq ([POpen ''gnuplot -persistent'' ''w''], Ok ())
              (\<lambda>_. seq (gnuplot_exec g1 (title_command v) [])
              (\<lambda>_. seq (gnuplot_exec g1 (xlabel_command v) [])
                (\<lambda>_. seq (gnuplot_exec g1 ylabel_command [])
                  (\<lambda>_. seq (gnuplot_exec g1 xtics_format
                               [ADbl (Fin (center_mhz - step_size)), ADbl (Fin center_mhz),
                                ADbl (Fin (center_mhz + step_size))])
                    (\<lambda>_. ([], Ok g1))))))))"

subsection \<open>\<^verbatim>\<open>configure_rtlsdr\<close>\<close>

definition bold_attr :: string where
  "bold_attr = [CHR 0x1B] @ ''[1m''"

definition all_attr_off :: string where
  "all_attr_off = [CHR 0x1B] @ ''[0m''"

text \<open>
  The list of the devices found. \<^verbatim>\<open>rtl_map.c\<close> prints the global \<^verbatim>\<open>n\<close> in front of
  each name, which is still 0 at this point; \<^verbatim>\<open>rtl_fftx.c\<close> prints the loop index.
\<close>

fun list_devices :: "variant \<Rightarrow> env \<Rightarrow> globals \<Rightarrow> nat list \<Rightarrow> event list" where
  "list_devices v e g [] = []"
| "list_devices v e g (i # rest) =
     (let shown = (case v of RtlMap \<Rightarrow> 0 | RtlFftx \<Rightarrow> int i) in
      (if log_colors g
       then Log INFO (''#%d: %s%s%s'' @ [NL]) [AInt shown, AStr bold_attr, AStr (device_name e i), AStr all_attr_off]
       else Log INFO (''#%d: %s'' @ [NL]) [AInt shown, AStr (device_name e i)])
      # list_devices v e g rest)"

text \<open>
  The loop of \<^verbatim>\<open>rtl_map.c\<close> over the gains the tuner supports:
  \<^verbatim>\<open>if (gains[i] > 10 && gains[i] < 30) _gain = gains[i]; fprintf(stderr, "%.1f ", gains[i] / 10.0);\<close>
  It returns the events and the value of \<^verbatim>\<open>_gain\<close> after the loop.
\<close>

fun select_gain :: "int list \<Rightarrow> int \<Rightarrow> event list \<times> int" where
  "select_gain [] gn = ([], gn)"
| "select_gain (x # xs) gn =
     (case select_gain xs (if 10 < x \<and> x < 30 then x else gn) of
        (es, r) \<Rightarrow> (Printf Stderr ''%.1f '' [ADbl (Fin (real_of_int x / 10))] # es, r))"

text \<open>The loop of \<^verbatim>\<open>rtl_fftx.c\<close> only prints the gains.\<close>

definition print_gains :: "int list \<Rightarrow> event list" where
  "print_gains gs = map (\<lambda>x. Printf Stderr ''%.1f '' [ADbl (Fin (real_of_int x / 10))]) gs"

text \<open>
  The gain part of \<^verbatim>\<open>configure_rtlsdr\<close>. \<^verbatim>\<open>rtlsdr_get_tuner_gains\<close> returns the number of
  gains and fills the array; \<^verbatim>\<open>int gains[gain_count]\<close> with a count of zero is undefined
  behaviour.
\<close>

definition configure_gain :: "variant \<Rightarrow> env \<Rightarrow> globals \<Rightarrow> globals result" where
  "configure_gain v e g =
     (if gain g = 0
      then ([SetTunerGainMode (gain g), Log INFO (''Gain mode set to auto.'' @ [NL]) []], Ok g)
      else
        (case v of
           RtlMap \<Rightarrow>
             (if tuner_gains e = []
              then ([SetTunerGainMode 1,
                     Log INFO ''Supported gain values (%d): '' [AInt (int (length (tuner_gains e)))]],
                    Undefined VlaSize)
              else
                (case select_gain (tuner_gains e) (gain g) of
                   (es, gn) \<Rightarrow>
                     ([SetTunerGainMode 1,
                       Log INFO ''Supported gain values (%d): '' [AInt (int (length (tuner_gains e)))]]
                      @ es
                      @ [Printf Stderr [NL] [],
                         Log INFO (''Gain set to %.1f'' @ [NL]) [ADbl (Fin (real_of_int gn / 10))],
                         SetTunerGain gn],
                      Ok (g\<lparr>gain := gn\<rparr>))))
         | RtlFftx \<Rightarrow>
             (if tuner_gains e = []
              then ([SetTunerGainMode 1, SetTunerGain (gain g),
                     Log INFO (''Gain set to %d.'' @ [NL] @ ''Supported gain values (%d): '')
                       [AInt (gain g), AInt (int (length (tuner_gains e)))]],
                    Undefined VlaSize)
              else
                ([SetTunerGainMode 1, SetTunerGain (gain g),
                  Log INFO (''Gain set to %d.'' @ [NL] @ ''Supported gain values (%d): '')
                    [AInt (gain g), AInt (int (length (tuner_gains e)))]]
                 @ print_gains (tuner_gains e)
                 @ [Printf Stderr [NL] []],
                 Ok g))))"

definition configure_rtlsdr :: "variant \<Rightarrow> env \<Rightarrow> globals \<Rightarrow> globals result" where
  "configure_rtlsdr v e g =
     (if device_count e = 0
      then ([Log ERROR (''No supported devices found.'' @ [NL]) []], Exit 1 g)
      else
        seq ((case v of RtlMap \<Rightarrow> [Log INFO (''Starting rtl_map ~'' @ [NL]) []] | RtlFftx \<Rightarrow> [])
             @ [Log INFO (''Found %d device(s):'' @ [NL]) [AInt (int (device_count e))]]
             @ list_devices v e g [0..<device_count e], Ok ())
          (\<lambda>_. if open_result e < 0
                then ([Log FATAL (''Failed to open RTL-SDR device #%d'' @ [NL]) [AInt (dev_id g)]], Exit 1 g)
                else
                  seq ([Log INFO (''Using device: #%d'' @ [NL]) [AInt (open_result e)]],
                       Ok (g\<lparr>dev := Some (dev_id g)\<rparr>))
                    (\<lambda>g1. seq (configure_gain v e g1)
                      (\<lambda>g2. ([SetOffsetTuning (if offset_tuning g2 then 1 else 0),
                               SetCenterFreq (center_freq g2),
                               SetSampleRate (samp_rate g2),
                               Log INFO (''Center frequency set to %d Hz.'' @ [NL]) [AInt (center_freq g2)],
                               Log INFO (''Sampling at %d S/s'' @ [NL]) [AInt (samp_rate g2)],
                               ResetBuffer]
                              @ (if reset_result e < 0
                                 then [Log FATAL (''Failed to reset buffers.'' @ [NL]) []] else []),
                              Ok g2)))))"

subsection \<open>\<^verbatim>\<open>open_file\<close>\<close>

definition open_file :: "env \<Rightarrow> globals \<Rightarrow> globals result" where
  "open_file e g =
     (case filename g of
        None \<Rightarrow> ([], Ok g)
      | Some name \<Rightarrow>
          (if name = ''-'' then ([], Ok (g\<lparr>write_file := True, file_ptr := Some Stdout\<rparr>))
           else if fopen_ok e
           then ([FOpen name ''w+''], Ok (g\<lparr>write_file := True, file_ptr := Some (RegularFile name)\<rparr>))
           else ([FOpen name ''w+'', Log ERROR (''Failed to open %s'' @ [NL]) [AStr name]],
                 Exit 1 (g\<lparr>write_file := True\<rparr>))))"

subsection \<open>The asynchronous read callback of \<^verbatim>\<open>rtl_map.c\<close>\<close>

text \<open>Facts about sequencing that the loop's definition and the proofs below rely on.\<close>

lemma seq_cong [fundef_cong]:
  "m = m' \<Longrightarrow> (\<And>es a. m' = (es, Ok a) \<Longrightarrow> f a = f' a) \<Longrightarrow> seq m f = seq m' f'"
  by (auto simp: seq_def split: prod.splits status.splits)

lemma seq_Ok_iff:
  "seq m f = (es, Ok b) \<longleftrightarrow> (\<exists>es1 a es2. m = (es1, Ok a) \<and> f a = (es2, Ok b) \<and> es = es1 @ es2)"
  by (cases m; cases "snd m") (auto simp: seq_def split: prod.splits status.splits)

lemma create_fft_Ok:
  assumes "create_fft v mem sample_c buf g = (es, Ok g1)"
  shows "read_count g1 = (case v of RtlMap \<Rightarrow> read_count g + 1 | RtlFftx \<Rightarrow> read_count g)"
    and "g1\<lparr>sample_bin := sb, read_count := rc\<rparr> = g\<lparr>sample_bin := sb, read_count := rc\<rparr>"
  using assms
  by (cases v; auto simp: create_fft_def seq_Ok_iff split: sum.splits if_splits)+

lemma create_fft_RtlMap_measure:
  assumes "create_fft RtlMap mem sample_c buf g = (es, Ok g1)"
  shows "read_count g1 = read_count g + 1" and "num_read g1 = num_read g"
proof -
  show "read_count g1 = read_count g + 1"
    using create_fft_Ok(1) [OF assms] by simp
  have "num_read (g1\<lparr>sample_bin := [], read_count := 0\<rparr>) = num_read (g\<lparr>sample_bin := [], read_count := 0\<rparr>)"
    using create_fft_Ok(2) [OF assms] by simp
  then show "num_read g1 = num_read g" by simp
qed

definition usleep :: "int \<Rightarrow> unit result" where
  "usleep us = ([USleep us], Ok ())"

text \<open>
  \<^verbatim>\<open>rtlsdr_read_async(dev, async_read_callback, NULL, buf_num, buf_len)\<close>: the request is
  recorded with its buffer count and its buffer length in bytes.
\<close>

definition rtlsdr_read_async :: "nat \<Rightarrow> nat \<Rightarrow> unit result" where
  "rtlsdr_read_async buf_num buf_len = ([ReadAsync buf_num buf_len], Ok ())"

text \<open>
  \<^verbatim>\<open>async_read_callback\<close>: the driver answers a request by calling it with a batch. The
  \<open>k\<close>-th call (counted from 0 by \<^verbatim>\<open>read_count\<close>) receives \<open>source e k\<close>, and
  \<^verbatim>\<open>create_fft\<close> finds \<open>heap e k\<close> in its fresh input array. After a new request the
  next call of the callback follows; \<^verbatim>\<open>1000*_refresh_rate\<close> is an \<^verbatim>\<open>int\<close> product.
\<close>

function async_read_callback :: "nat \<Rightarrow> env \<Rightarrow> globals \<Rightarrow> unit result" where
  "async_read_callback nr e g =
     seq (create_fft RtlMap (heap e (nat (read_count g))) nr (source e (nat (read_count g))) g)
       (\<lambda>g1. if cont_read g1 \<and> read_count g1 < num_read g1
             then seq (if INT_MIN \<le> 1000 * refresh_rate g1 \<and> 1000 * refresh_rate g1 \<le> INT_MAX
                       then usleep (1000 * refresh_rate g1) else ([], Undefined SignedOverflow))
                    (\<lambda>_. seq (rtlsdr_read_async 0 (nr * nr)) (\<lambda>_. async_read_callback nr e g1))
             else seq (print_log INFO (''Done, exiting...'' @ [NL]) []) (\<lambda>_. do_exit g1))"
  by pat_completeness auto
termination
proof (relation "measure (\<lambda>(nr, e, g). nat (num_read g - read_count g))", goal_cases)
  case 1
  show ?case by simp
next
  case (2 nr e g es g1 es1 u es2 u2)
  from create_fft_RtlMap_measure [OF 2(1)] show ?case using 2(2) by auto
qed

declare async_read_callback.simps [simp del]

subsection \<open>\<^verbatim>\<open>main\<close>\<close>

text \<open>
  After \<^verbatim>\<open>parse_args\<close>, \<^verbatim>\<open>register_signals\<close> installs \<^verbatim>\<open>sig_handler\<close> for SIGINT,
  SIGTERM, SIGQUIT and SIGPIPE; then come the three start-up calls, whose return values
  \<^verbatim>\<open>main\<close> ignores.
\<close>

definition startup_steps :: "variant \<Rightarrow> nat \<Rightarrow> env \<Rightarrow> (globals \<Rightarrow> globals result) list" where
  "startup_steps v nr e = [configure_gnuplot v nr e, configure_rtlsdr v e, open_file e]"

fun run_steps :: "(globals \<Rightarrow> globals result) list \<Rightarrow> globals \<Rightarrow> globals result" where
  "run_steps [] g = ([], Ok g)"
| "run_steps (f # fs) g = seq (f g) (run_steps fs)"

text \<open>\<^verbatim>\<open>main\<close> of \<^verbatim>\<open>rtl_map.c\<close>, for a program built with \<^verbatim>\<open>NUM_READ\<close> = \<open>nr\<close>.\<close>

definition main :: "nat \<Rightarrow> env \<Rightarrow> opt list \<Rightarrow> string option \<Rightarrow> unit result" where
  "main nr e opts fname =
     seq (parse_args RtlMap opts fname (initial_globals nr))
       (\<lambda>g. seq (run_steps (startup_steps RtlMap nr e) g)
         (\<lambda>g1. seq (rtlsdr_read_async 0 (nr * nr)) (\<lambda>_. async_read_callback nr e g1)))"

text \<open>
  A run of either variant in which one of the registered signals arrives when \<open>k\<close> of
  the start-up calls have returned: the handler runs on the globals of that moment.
\<close>

definition main_interrupted :: "variant \<Rightarrow> nat \<Rightarrow> env \<Rightarrow> opt list \<Rightarrow> string option \<Rightarrow> nat \<Rightarrow> unit result" where
  "main_interrupted v nr e opts fname k =
     seq (parse_args v opts fname (initial_globals nr))
       (\<lambda>g. seq (run_steps (take k (startup_steps v nr e)) g) sig_handler)"

subsection \<open>The text of a recorded \<^verbatim>\<open>printf\<close> call\<close>

text \<open>
  Decimal digits of an \<^verbatim>\<open>int\<close> for \<^verbatim>\<open>%d\<close>. How \<^verbatim>\<open>%f\<close> prints a floating-point
  value is left to the parameter \<open>showf\<close>. \<open>render\<close> knows the two conversions of the
  bin lines, \<^verbatim>\<open>%d\<close> and \<^verbatim>\<open>%f\<close>; any other is \<open>NotModelled\<close>. A conversion whose
  argument is missing or has another type is undefined behaviour in C (7.21.6.1 of the
  standard): \<open>Mismatch\<close>.
\<close>

datatype rendering = Text string | Mismatch | NotModelled

fun digits :: "nat \<Rightarrow> string" where
  "digits n = (if n < 10 then [char_of (48 + n)] else digits (n div 10) @ [char_of (48 + n mod 10)])"

declare digits.simps [simp del]

definition show_int :: "int \<Rightarrow> string" where
  "show_int i = (if i < 0 then CHR ''-'' # digits (nat (- i)) else digits (nat i))"

definition prepend :: "string \<Rightarrow> rendering \<Rightarrow> rendering" where
  "prepend s r = (case r of Text t \<Rightarrow> Text (s @ t) | Mismatch \<Rightarrow> Mismatch | NotModelled \<Rightarrow> NotModelled)"

fun render :: "(fval \<Rightarrow> string) \<Rightarrow> string \<Rightarrow> parg list \<Rightarrow> rendering" where
  "render showf [] args = Text []"
| "render showf [c] args = (if c = CHR ''%'' then NotModelled else Text [c])"
| "render showf (c # d # fmt) args =
     (if c = CHR ''%'' then
        (if d = CHR ''d'' then
           (case args of
              AInt i # rest \<Rightarrow> prepend (show_int i) (render showf fmt rest)
            | _ \<Rightarrow> Mismatch)
         else if d = CHR ''f'' then
           (case args of
              ADbl x # rest \<Rightarrow> prepend (showf x) (render showf fmt rest)
            | _ \<Rightarrow> Mismatch)
         else NotModelled)
      else prepend [c] (render showf (d # fmt) args))"

text \<open>The arguments of the \<^verbatim>\<open>printf\<close> calls on one stream, and the requests to the driver.\<close>

fun printf_args :: "stream \<Rightarrow> event list \<Rightarrow> parg list list" where
  "printf_args s [] = []"
| "printf_args s (Printf s' fmt args # es) = (if s' = s then args # printf_args s es else printf_args s es)"
| "printf_args s (_ # es) = printf_args s es"

fun on_stream :: "stream \<Rightarrow> event \<Rightarrow> bool" where
  "on_stream s (Printf s' fmt args) = (s' = s)"
| "on_stream s (Flush s') = (s' = s)"
| "on_stream s (PClose s') = (s' = s)"
| "on_stream s (FClose s') = (s' = s)"
| "on_stream s _ = False"

fun is_request :: "event \<Rightarrow> bool" where
  "is_request (ReadAsync a b) = True"
| "is_request _ = False"

fun is_set_gain :: "event \<Rightarrow> bool" where
  "is_set_gain (SetTunerGain x) = True"
| "is_set_gain _ = False"

fun is_fclose :: "event \<Rightarrow> bool" where
  "is_fclose (FClose s) = True"
| "is_fclose _ = False"

section \<open>Properties of the spectrum transform\<close>

subsection \<open>The conversion loop\<close>

lemma fill_in_length:
  "fill_in v sample_c buf i n inp = Inr inp' \<Longrightarrow> length inp' = length inp"
proof (induction v sample_c buf i n inp rule: fill_in.induct)
  case (1 v sample_c buf i n inp)
  then show ?case
    by (subst (asm) (2) fill_in.simps) (auto split: if_splits)
qed

text \<open>
  What the loop leaves in \<^verbatim>\<open>in\<close>: slot \<open>j\<close> is written only for even \<open>j\<close>, from the
  bytes \<open>j div 2\<close> and \<open>j div 2 + 1\<close>; every odd slot keeps what the allocator returned.
\<close>

lemma fill_in_slots:
  assumes "fill_in v sample_c buf i n inp = Inr inp'" and "length inp = sample_c" and "i = 2 * n"
  shows "\<forall>j < sample_c. inp' ! j =
           (if i \<le> j \<and> even j then iq_to_complex v (buf ! (j div 2)) (buf ! (j div 2 + 1)) else inp ! j)"
  using assms
proof (induction v sample_c buf i n inp rule: fill_in.induct)
  case (1 v sample_c buf i n inp)
  show ?case
  proof (cases "i < sample_c")
    case False
    with "1.prems" show ?thesis by (subst (asm) fill_in.simps) auto
  next
    case True
    with "1.prems" have ok: "n + 1 < length buf"
      and rec: "fill_in v sample_c buf (i + 2) (n + 1) (inp[i := iq_to_complex v (buf ! n) (buf ! (n + 1))]) = Inr inp'"
      by (subst (asm) fill_in.simps; simp split: if_splits)+
    have IH: "\<forall>j < sample_c. inp' ! j =
        (if i + 2 \<le> j \<and> even j then iq_to_complex v (buf ! (j div 2)) (buf ! (j div 2 + 1))
         else inp[i := iq_to_complex v (buf ! n) (buf ! (n + 1))] ! j)"
      using "1.IH" [OF True ok rec] "1.prems" by simp
    show ?thesis
    proof (intro allI impI)
      fix j assume j: "j < sample_c"
      with IH have *: "inp' ! j =
        (if i + 2 \<le> j \<and> even j then iq_to_complex v (buf ! (j div 2)) (buf ! (j div 2 + 1))
         else inp[i := iq_to_complex v (buf ! n) (buf ! (n + 1))] ! j)" by blast
      show "inp' ! j = (if i \<le> j \<and> even j then iq_to_complex v (buf ! (j div 2)) (buf ! (j div 2 + 1)) else inp ! j)"
      proof (cases "j = i")
        case True
        with * "1.prems" j show ?thesis by simp
      next
        case False
        with * "1.prems" j show ?thesis
          by (auto simp: nth_list_update elim!: evenE)
      qed
    qed
  qed
qed

text \<open>
  Claim C1 says that the \<open>i\<close>-th complex sample is
  \<open>(batch[2i] - offset) + j (batch[2i+1] - offset)\<close> for every \<open>i < N\<close>, that the batch
  \<open>[127,127,137,117,107,147,127,127]\<close> with offset 127 gives \<open>(0, 10-10j, -20+20j, 0)\<close>,
  and that the batch defines every input slot of the transform. The loop of
  \<^verbatim>\<open>create_fft\<close> steps the slot index by two and the byte index by one: on that batch
  (\<^verbatim>\<open>rtl_fftx.c\<close>, offset 127, \<open>sample_c = 4\<close>) it leaves \<open>0+0j\<close> in slot 0, \<open>0+10j\<close>
  (bytes 1 and 2) in slot 2, and slots 1 and 3 as the allocator returned them.
\<close>

theorem deinterleave_example:
  "fill_in RtlFftx 4 [127, 127, 137, 117, 107, 147, 127, 127] 0 0 (map mem [0..<4])
     = Inr [Complex 0 0, mem 1, Complex 0 10, mem 3]"
  by (simp add: fill_in.simps iq_to_complex_def offset_def upt_rec numeral_3_eq_3)

subsection \<open>What one call of \<^verbatim>\<open>create_fft\<close> writes\<close>

text \<open>
  The events that the loop body produces for bin \<open>i\<close> with level \<open>db\<close>, and the
  events around the loop, written out for the statements below.
\<close>

definition file_line :: "globals \<Rightarrow> nat \<Rightarrow> fval \<Rightarrow> event list" where
  "file_line g i db =
     (if write_file g
      then (case file_ptr g of Some f \<Rightarrow> [Printf f bin_format [AInt (int i + 1), ADbl db]] | None \<Rightarrow> [])
      else [])"

definition plot_line :: "globals \<Rightarrow> nat \<Rightarrow> fval \<Rightarrow> event list" where
  "plot_line g i db =
     (if use_gnuplot g
      then (case gnuplotPipe g of Some p \<Rightarrow> [Printf p bin_format [ADbl db, AInt (int i + 1)]] | None \<Rightarrow> [])
      else [])"

definition bin_lines :: "globals \<Rightarrow> nat \<Rightarrow> fval \<Rightarrow> event list" where
  "bin_lines g i db = file_line g i db @ plot_line g i db"

definition plot_head :: "globals \<Rightarrow> event list" where
  "plot_head g =
     (if use_gnuplot g
      then (case gnuplotPipe g of Some p \<Rightarrow> [Printf p plot_directive []] | None \<Rightarrow> [])
      else [])"

definition plot_tail :: "globals \<Rightarrow> event list" where
  "plot_tail g =
     (if use_gnuplot g
      then (case gnuplotPipe g of Some p \<Rightarrow> [Printf p (''e'' @ [NL]) [], Flush p] | None \<Rightarrow> [])
      else [])"

text \<open>
  Globals for concrete calls of \<^verbatim>\<open>create_fft\<close> with \<^verbatim>\<open>NUM_READ\<close> = 2: continuous
  mode, the file sink on standard output (file name \<^verbatim>\<open>-\<close>), magnitude mode if \<open>mag\<close>,
  gnuplot in use and its pipe open if \<open>plot\<close>.
\<close>

definition demo_globals :: "bool \<Rightarrow> bool \<Rightarrow> globals" where
  "demo_globals mag plot =
     (initial_globals 2)\<lparr>center_freq := 100000000, mag_graph := mag, use_gnuplot := plot,
        cont_read := True, filename := Some ''-'', write_file := True, file_ptr := Some Stdout,
        gnuplotPipe := (if plot then Some GnuplotPipe else None), dev := Some 0\<rparr>"

lemma bin_body_Ok:
  assumes "bin_body g out i sb = (es, Ok sb')"
  shows "\<exists>a. compute_amp (out ! i) = Inr a \<and> i < length sb
           \<and> sb' = sb[i := \<lparr>bin_val = compute_db (mag_graph g) a, bin_id = int i\<rparr>]
           \<and> es = bin_lines g i (compute_db (mag_graph g) a)"
  using assms
  by (auto simp: bin_body_def bin_lines_def file_line_def plot_line_def seq_Ok_iff Let_def skip_def
                 gnuplot_exec_def fprintf_def
           split: sum.splits if_splits option.splits)

lemma emit_bins_Ok:
  assumes "emit_bins g sample_c out i sb = (es, Ok sb')"
  shows "length sb' = length sb
       \<and> (i < sample_c \<longrightarrow> sample_c \<le> length sb)
       \<and> (\<forall>j. j < i \<or> sample_c \<le> j \<longrightarrow> sb' ! j = sb ! j)
       \<and> (\<forall>j. i \<le> j \<and> j < sample_c \<longrightarrow>
             (\<exists>a. compute_amp (out ! j) = Inr a
                \<and> sb' ! j = \<lparr>bin_val = compute_db (mag_graph g) a, bin_id = int j\<rparr>))
       \<and> es = concat (map (\<lambda>j. bin_lines g j (bin_val (sb' ! j))) [i..<sample_c])"
  using assms
proof (induction g sample_c out i sb arbitrary: es rule: emit_bins.induct)
  case (1 g sample_c out i sb)
  show ?case
  proof (cases "i < sample_c")
    case False
    with "1.prems" show ?thesis by (subst (asm) emit_bins.simps) auto
  next
    case True
    with "1.prems" obtain es1 sb1 es2 where
      body: "bin_body g out i sb = (es1, Ok sb1)"
      and rest: "emit_bins g sample_c out (i + 1) sb1 = (es2, Ok sb')"
      and es: "es = es1 @ es2"
      by (subst (asm) emit_bins.simps) (auto simp: seq_Ok_iff)
    from bin_body_Ok [OF body] obtain a where
      a: "compute_amp (out ! i) = Inr a" and i: "i < length sb"
      and sb1: "sb1 = sb[i := \<lparr>bin_val = compute_db (mag_graph g) a, bin_id = int i\<rparr>]"
      and es1: "es1 = bin_lines g i (compute_db (mag_graph g) a)"
      by blast
    note IH = "1.IH" [OF True rest]
    have len: "length sb' = length sb" using IH sb1 by simp
    have keep: "\<forall>j. j < i + 1 \<or> sample_c \<le> j \<longrightarrow> sb' ! j = sb1 ! j" using IH by blast
    have at_i: "sb' ! i = \<lparr>bin_val = compute_db (mag_graph g) a, bin_id = int i\<rparr>"
      using keep sb1 i by simp
    have bound: "sample_c \<le> length sb"
    proof (cases "i + 1 < sample_c")
      case True
      then show ?thesis using IH sb1 by simp
    next
      case False
      with \<open>i < sample_c\<close> i show ?thesis by simp
    qed
    have others: "\<forall>j. j < i \<or> sample_c \<le> j \<longrightarrow> sb' ! j = sb ! j"
      using keep sb1 True by (auto simp: nth_list_update_neq)
    have vals: "\<forall>j. i \<le> j \<and> j < sample_c \<longrightarrow>
             (\<exists>a. compute_amp (out ! j) = Inr a
                \<and> sb' ! j = \<lparr>bin_val = compute_db (mag_graph g) a, bin_id = int j\<rparr>)"
    proof (intro allI impI)
      fix j assume j: "i \<le> j \<and> j < sample_c"
      show "\<exists>a. compute_amp (out ! j) = Inr a
                \<and> sb' ! j = \<lparr>bin_val = compute_db (mag_graph g) a, bin_id = int j\<rparr>"
      proof (cases "j = i")
        case True
        with a at_i show ?thesis by simp
      next
        case False
        with j have "i + 1 \<le> j \<and> j < sample_c" by simp
        with IH show ?thesis by blast
      qed
    qed
    have "es2 = concat (map (\<lambda>j. bin_lines g j (bin_val (sb' ! j))) [i + 1..<sample_c])"
      using IH by blast
    moreover have "es1 = bin_lines g i (bin_val (sb' ! i))"
      using es1 at_i by simp
    ultimately have "es = concat (map (\<lambda>j. bin_lines g j (bin_val (sb' ! j))) [i..<sample_c])"
      using es True by (simp add: upt_conv_Cons)
    with len bound others vals show ?thesis by blast
  qed
qed

lemma create_fft_events:
  assumes "create_fft v mem sample_c buf g = (es, Ok g1)"
  shows "es = events (create_fft_log v g) @ plot_head g
              @ concat (map (\<lambda>j. bin_lines g j (bin_val (sample_bin g1 ! j))) [0..<sample_c])
              @ plot_tail g"
    and "\<forall>j < sample_c. bin_id (sample_bin g1 ! j) = int j"
    and "0 < sample_c \<longrightarrow> sample_c \<le> length (sample_bin g1)"
proof -
  from assms obtain inp es0 es1 es2 es3 sb where
    fill: "fill_in v sample_c buf 0 0 (map mem [0..<sample_c]) = Inr inp"
    and log: "create_fft_log v g = (es0, Ok ())"
    and head: "(if use_gnuplot g then gnuplot_exec g plot_directive [] else skip) = (es1, Ok ())"
    and bins: "emit_bins g sample_c (dft inp) 0 (sample_bin g) = (es2, Ok sb)"
    and tail: "(if use_gnuplot g
                then seq (gnuplot_exec g (''e'' @ [NL]) []) (\<lambda>_. fflush (gnuplotPipe g))
                else skip) = (es3, Ok ())"
    and es: "es = es0 @ es1 @ es2 @ es3"
    and sb: "sample_bin g1 = sb"
    by (cases v; auto simp: create_fft_def seq_Ok_iff split: sum.splits if_splits)
  have h: "es1 = plot_head g"
    using head by (auto simp: plot_head_def gnuplot_exec_def fprintf_def skip_def split: if_splits option.splits)
  have t: "es3 = plot_tail g"
    using tail
    by (auto simp: plot_tail_def gnuplot_exec_def fprintf_def fflush_def skip_def seq_Ok_iff
             split: if_splits option.splits)
  note B = emit_bins_Ok [OF bins]
  have b: "es2 = concat (map (\<lambda>j. bin_lines g j (bin_val (sample_bin g1 ! j))) [0..<sample_c])"
    using B sb by simp
  show "es = events (create_fft_log v g) @ plot_head g
              @ concat (map (\<lambda>j. bin_lines g j (bin_val (sample_bin g1 ! j))) [0..<sample_c])
              @ plot_tail g"
    using es h t b log by (simp add: events_def)
  show "\<forall>j < sample_c. bin_id (sample_bin g1 ! j) = int j"
  proof (intro allI impI)
    fix j assume "j < sample_c"
    then have "\<exists>a. compute_amp (dft inp ! j) = Inr a
                \<and> sb ! j = \<lparr>bin_val = compute_db (mag_graph g) a, bin_id = int j\<rparr>"
      using B by simp
    then show "bin_id (sample_bin g1 ! j) = int j" using sb by auto
  qed
  show "0 < sample_c \<longrightarrow> sample_c \<le> length (sample_bin g1)"
    using B sb by simp
qed

lemma file_line_on_file:
  "write_file g \<Longrightarrow> file_ptr g = Some f \<Longrightarrow>
     filter (on_stream f) (file_line g j x) = [Printf f bin_format [AInt (int j + 1), ADbl x]]"
  by (simp add: file_line_def)

lemma plot_line_on_file:
  "gnuplotPipe g \<noteq> Some f \<Longrightarrow> filter (on_stream f) (plot_line g j x) = []"
  by (cases "use_gnuplot g"; cases "gnuplotPipe g") (simp_all add: plot_line_def)

lemma create_fft_log_no_stream: "filter (on_stream s) (events (create_fft_log v g)) = []"
  by (cases v) (auto simp: create_fft_log_def events_def print_log_def skip_def)

lemma render_file_line:
  "render showf bin_format [AInt k, ADbl x] = Text (show_int k @ [TAB] @ showf x @ [NL])"
  by (simp add: bin_format_def prepend_def TAB_def NL_def)

lemma render_plot_line:
  "render showf bin_format [ADbl x, AInt k] = Mismatch"
  by (simp add: bin_format_def)

lemma double_to_int_square:
  "double_to_int (x * x) = Inr t \<Longrightarrow> 0 \<le> t"
  by (auto simp: double_to_int_def Let_def split: if_splits)

lemma compute_amp_nonneg:
  "compute_amp z = Inr a \<Longrightarrow> 0 \<le> a"
  by (auto simp: compute_amp_def int_add_def split: sum.splits if_splits dest!: double_to_int_square)

subsection \<open>Concrete runs\<close>

text \<open>The transform of two points, and four runs of \<^verbatim>\<open>create_fft\<close> on a batch of bytes 127.\<close>

lemma dft_2: "dft [a, b] = [a + b, a - b]"
  by (simp add: dft_def complex_eq_iff)

lemma replicate_2: "replicate 2 x = [x, x]"
  by (simp add: numeral_2_eq_2)

lemmas eval_defs = create_fft_def fill_in.simps iq_to_complex_def offset_def demo_globals_def
  initial_globals_def seq_def skip_def create_fft_log_def emit_bins.simps bin_body_def
  gnuplot_exec_def fprintf_def fflush_def compute_amp_def double_to_int_def int_add_def
  INT_MIN_def INT_MAX_def compute_db_def c_log10_def fmul_def print_log_def upt_rec dft_2
  Let_def replicate_2

lemma run_level_zero:
  "create_fft RtlFftx (\<lambda>_. 0) 2 [127, 127, 127, 127] (demo_globals False False)
     = ([Printf Stdout bin_format [AInt 1, ADbl NegInf], Printf Stdout bin_format [AInt 2, ADbl NegInf]],
        Ok ((demo_globals False False)\<lparr>sample_bin := [\<lparr>bin_val = NegInf, bin_id = 0\<rparr>, \<lparr>bin_val = NegInf, bin_id = 1\<rparr>]\<rparr>))"
  by (simp add: eval_defs zero_complex.code)

lemma run_mag_zero:
  "create_fft RtlFftx (\<lambda>_. 0) 2 [127, 127, 127, 127] (demo_globals True False)
     = ([Printf Stdout bin_format [AInt 1, ADbl (Fin 0)], Printf Stdout bin_format [AInt 2, ADbl (Fin 0)]],
        Ok ((demo_globals True False)\<lparr>sample_bin := [\<lparr>bin_val = Fin 0, bin_id = 0\<rparr>, \<lparr>bin_val = Fin 0, bin_id = 1\<rparr>]\<rparr>))"
  by (simp add: eval_defs zero_complex.code)

lemma run_mag_one:
  "create_fft RtlFftx (\<lambda>_. 1) 2 [127, 127, 127, 127] (demo_globals True False)
     = ([Printf Stdout bin_format [AInt 1, ADbl (Fin 1)], Printf Stdout bin_format [AInt 2, ADbl (Fin 1)]],
        Ok ((demo_globals True False)\<lparr>sample_bin := [\<lparr>bin_val = Fin 1, bin_id = 0\<rparr>, \<lparr>bin_val = Fin 1, bin_id = 1\<rparr>]\<rparr>))"
  by (simp add: eval_defs zero_complex.code one_complex.code)

lemma run_map_mag:
  "create_fft RtlMap (\<lambda>_. 0) 2 [127, 127, 127, 127] (demo_globals True False)
     = ([Printf Stdout bin_format [AInt 1, ADbl (Fin 0)], Printf Stdout bin_format [AInt 2, ADbl (Fin 0)]],
        Ok ((demo_globals True False)\<lparr>sample_bin := [\<lparr>bin_val = Fin 0, bin_id = 0\<rparr>, \<lparr>bin_val = Fin 0, bin_id = 1\<rparr>],
            read_count := 1\<rparr>))"
  by (simp add: eval_defs zero_complex.code)

lemma run_plot:
  "create_fft RtlFftx (\<lambda>_. 0) 2 [127, 127, 127, 127] (demo_globals True True)
     = ([Printf GnuplotPipe plot_directive [],
         Printf Stdout bin_format [AInt 1, ADbl (Fin 0)],
         Printf GnuplotPipe bin_format [ADbl (Fin 0), AInt 1],
         Printf Stdout bin_format [AInt 2, ADbl (Fin 0)],
         Printf GnuplotPipe bin_format [ADbl (Fin 0), AInt 2],
         Printf GnuplotPipe (''e'' @ [NL]) [], Flush GnuplotPipe],
        Ok ((demo_globals True True)\<lparr>sample_bin := [\<lparr>bin_val = Fin 0, bin_id = 0\<rparr>, \<lparr>bin_val = Fin 0, bin_id = 1\<rparr>]\<rparr>))"
  by (simp add: eval_defs zero_complex.code)

subsection \<open>Bins and file lines\<close>

text \<open>
  Claim C2 says that every processed batch yields exactly \<open>N\<close> bins whose indices cover
  \<open>[0,N)\<close> once in ascending order, and that with a file sink each bin is written as
  one line \<^verbatim>\<open><index><TAB><value>\<close>, index first. As amended: for every batch that
  \<^verbatim>\<open>create_fft\<close> processes, the first \<open>N\<close> entries of \<^verbatim>\<open>sample_bin\<close> carry the ids
  \<open>0, ..., N-1\<close> in this order, and with a file sink the file receives exactly \<open>N\<close>
  lines, in this order, the line of bin \<open>i\<close> being \<^verbatim>\<open><i+1><TAB><value>\<close>: the
  index column of the file runs from 1 to \<open>N\<close>.
\<close>

theorem bins_and_file_lines:
  assumes "create_fft v mem sample_c buf g = (es, Ok g1)"
    and "write_file g" and "file_ptr g = Some f" and "gnuplotPipe g \<noteq> Some f"
  shows "map bin_id (take sample_c (sample_bin g1)) = map int [0..<sample_c]
       \<and> filter (on_stream f) es
           = map (\<lambda>i. Printf f bin_format [AInt (int i + 1), ADbl (bin_val (sample_bin g1 ! i))]) [0..<sample_c]
       \<and> (\<forall>showf. \<forall>i < sample_c.
             render showf bin_format [AInt (int i + 1), ADbl (bin_val (sample_bin g1 ! i))]
               = Text (show_int (int i + 1) @ [TAB] @ showf (bin_val (sample_bin g1 ! i)) @ [NL]))"
proof -
  note E = create_fft_events [OF assms(1)]
  have ids: "map bin_id (take sample_c (sample_bin g1)) = map int [0..<sample_c]"
  proof (cases "sample_c = 0")
    case True
    then show ?thesis by simp
  next
    case False
    with E(3) have len: "sample_c \<le> length (sample_bin g1)" by simp
    show ?thesis
      using E(2) len by (auto intro!: nth_equalityI)
  qed
  have line: "filter (on_stream f) (bin_lines g j x) = [Printf f bin_format [AInt (int j + 1), ADbl x]]" for j x
    using assms(2-4) by (simp add: bin_lines_def file_line_on_file plot_line_on_file)
  have head: "filter (on_stream f) (plot_head g) = []"
    using assms(4) by (cases "use_gnuplot g"; cases "gnuplotPipe g") (simp_all add: plot_head_def)
  have tail: "filter (on_stream f) (plot_tail g) = []"
    using assms(4) by (cases "use_gnuplot g"; cases "gnuplotPipe g") (simp_all add: plot_tail_def)
  have "filter (on_stream f) es
          = concat (map (\<lambda>j. filter (on_stream f) (bin_lines g j (bin_val (sample_bin g1 ! j)))) [0..<sample_c])"
    by (subst E(1)) (simp add: create_fft_log_no_stream head tail filter_concat comp_def)
  also have "\<dots> = map (\<lambda>i. Printf f bin_format [AInt (int i + 1), ADbl (bin_val (sample_bin g1 ! i))]) [0..<sample_c]"
    by (simp add: line concat_map_singleton)
  finally show ?thesis using ids by (simp add: render_file_line)
qed

text \<open>The theorem at the run on a batch of bytes 127 in magnitude mode.\<close>

theorem bins_and_file_lines_witness:
  "map bin_id (take 2 [\<lparr>bin_val = Fin 0, bin_id = 0\<rparr>, \<lparr>bin_val = Fin 0, bin_id = 1\<rparr>]) = map int [0..<2]
   \<and> filter (on_stream Stdout)
         [Printf Stdout bin_format [AInt 1, ADbl (Fin 0)], Printf Stdout bin_format [AInt 2, ADbl (Fin 0)]]
       = map (\<lambda>i. Printf Stdout bin_format
                     [AInt (int i + 1),
                      ADbl (bin_val ([\<lparr>bin_val = Fin 0, bin_id = 0\<rparr>, \<lparr>bin_val = Fin 0, bin_id = 1\<rparr>] ! i))])
             [0..<2]"
proof -
  have a: "write_file (demo_globals True False)"
    and b: "file_ptr (demo_globals True False) = Some Stdout"
    and c: "gnuplotPipe (demo_globals True False) \<noteq> Some Stdout"
    by (simp_all add: demo_globals_def initial_globals_def)
  show ?thesis
    using bins_and_file_lines [OF run_mag_zero a b c] by simp
qed

text \<open>
  Against claim C2 as stated: in that run (\<open>N = 2\<close>) the index column of the file holds
  1 and 2, not the bin indices 0 and 1.
\<close>

theorem file_index_counterexample:
  "printf_args Stdout (events (create_fft RtlFftx (\<lambda>_. 0) 2 [127, 127, 127, 127] (demo_globals True False)))
     = [[AInt 1, ADbl (Fin 0)], [AInt 2, ADbl (Fin 0)]]
   \<and> map hd (printf_args Stdout (events (create_fft RtlFftx (\<lambda>_. 0) 2 [127, 127, 127, 127] (demo_globals True False))))
       \<noteq> map (\<lambda>i. AInt (int i)) [0..<2]"
  by (simp add: run_mag_zero events_def upt_rec)

subsection \<open>Level of a bin of magnitude zero\<close>

text \<open>
  Claim C3 says that in level-display mode a bin of magnitude 0 is emitted with a
  defined, finite value chosen by an explicit policy. As amended: in level-display mode
  the loop body applies no policy; the level it stores and writes for a bin of
  computed magnitude \<open>a\<close> is minus infinity when \<open>a = 0\<close> and the finite value
  \<open>10 log10 a\<close> otherwise.
\<close>

theorem level_mode_value:
  assumes "\<not> mag_graph g" and "bin_body g out i sb = (es, Ok sb')"
  shows "\<exists>a. compute_amp (out ! i) = Inr a \<and> 0 \<le> a
           \<and> bin_val (sb' ! i) = (if a = 0 then NegInf else Fin (10 * log 10 a))
           \<and> bin_id (sb' ! i) = int i
           \<and> es = bin_lines g i (bin_val (sb' ! i))"
proof -
  from bin_body_Ok [OF assms(2)] obtain a where
    a: "compute_amp (out ! i) = Inr a" and i: "i < length sb"
    and sb': "sb' = sb[i := \<lparr>bin_val = compute_db (mag_graph g) a, bin_id = int i\<rparr>]"
    and es: "es = bin_lines g i (compute_db (mag_graph g) a)"
    by blast
  have nonneg: "0 \<le> a"
    using a by (rule compute_amp_nonneg)
  have "compute_db (mag_graph g) a = (if a = 0 then NegInf else Fin (10 * log 10 a))"
    using assms(1) nonneg by (simp add: compute_db_def c_log10_def fmul_def)
  with a nonneg i sb' es show ?thesis by simp
qed

text \<open>The theorem at a bin whose transform output is 0.\<close>

theorem level_mode_value_witness:
  "\<not> mag_graph (demo_globals False False)
   \<and> bin_body (demo_globals False False) [0, 0] 0 (replicate 2 \<lparr>bin_val = Fin 0, bin_id = 0\<rparr>)
       = ([Printf Stdout bin_format [AInt 1, ADbl NegInf]],
          Ok [\<lparr>bin_val = NegInf, bin_id = 0\<rparr>, \<lparr>bin_val = Fin 0, bin_id = 0\<rparr>])
   \<and> (\<exists>a. compute_amp ([0, 0] ! 0) = Inr a \<and> 0 \<le> a
           \<and> bin_val ([\<lparr>bin_val = NegInf, bin_id = 0\<rparr>, \<lparr>bin_val = Fin 0, bin_id = 0\<rparr>] ! 0)
               = (if a = 0 then NegInf else Fin (10 * log 10 a))
           \<and> bin_id ([\<lparr>bin_val = NegInf, bin_id = 0\<rparr>, \<lparr>bin_val = Fin 0, bin_id = 0\<rparr>] ! 0) = int 0
           \<and> [Printf Stdout bin_format [AInt 1, ADbl NegInf]]
               = bin_lines (demo_globals False False) 0
                   (bin_val ([\<lparr>bin_val = NegInf, bin_id = 0\<rparr>, \<lparr>bin_val = Fin 0, bin_id = 0\<rparr>] ! 0)))"
proof -
  have m: "\<not> mag_graph (demo_globals False False)"
    by (simp add: demo_globals_def initial_globals_def)
  have b: "bin_body (demo_globals False False) [0, 0] 0 (replicate 2 \<lparr>bin_val = Fin 0, bin_id = 0\<rparr>)
       = ([Printf Stdout bin_format [AInt 1, ADbl NegInf]],
          Ok [\<lparr>bin_val = NegInf, bin_id = 0\<rparr>, \<lparr>bin_val = Fin 0, bin_id = 0\<rparr>])"
    by (simp add: eval_defs)
  from m b level_mode_value [OF m b] show ?thesis by blast
qed

text \<open>
  Against claim C3 as stated: on a batch of bytes 127 (\<^verbatim>\<open>rtl_fftx.c\<close>, level mode) both
  bins have magnitude 0 and both file lines carry minus infinity.
\<close>

theorem zero_magnitude_counterexample:
  "printf_args Stdout (events (create_fft RtlFftx (\<lambda>_. 0) 2 [127, 127, 127, 127] (demo_globals False False)))
     = [[AInt 1, ADbl NegInf], [AInt 2, ADbl NegInf]]"
  by (simp add: run_level_zero events_def)

subsection \<open>Magnitude\<close>

text \<open>
  Claim C4 says that the magnitude of output \<open>k\<close> is \<open>sqrt (re\<^sup>2 + im\<^sup>2)\<close> and that the
  emitted value is that magnitude in magnitude mode. The code stores both squares in
  \<^verbatim>\<open>int\<close> variables first. In \<^verbatim>\<open>rtl_map.c\<close>, magnitude mode, a batch of bytes 127 and
  zeros in the unwritten input slot give the outputs \<open>-0.34 - 0.34j\<close>, whose squares
  \<open>0.1156\<close> both become 0: the emitted magnitude is 0, while \<open>sqrt (re\<^sup>2 + im\<^sup>2)\<close> is
  not.
\<close>

theorem magnitude_truncation_example:
  "fill_in RtlMap 2 [127, 127, 127, 127] 0 0 (map (\<lambda>_. 0) [0..<2]) = Inr [Complex (- 34 / 100) (- 34 / 100), 0]
   \<and> dft [Complex (- 34 / 100) (- 34 / 100), 0] = [Complex (- 34 / 100) (- 34 / 100), Complex (- 34 / 100) (- 34 / 100)]
   \<and> compute_amp (Complex (- 34 / 100) (- 34 / 100)) = Inr 0
   \<and> sqrt ((- 34 / 100)\<^sup>2 + (- 34 / 100)\<^sup>2) \<noteq> 0
   \<and> printf_args Stdout (events (create_fft RtlMap (\<lambda>_. 0) 2 [127, 127, 127, 127] (demo_globals True False)))
       = [[AInt 1, ADbl (Fin 0)], [AInt 2, ADbl (Fin 0)]]"
  by (simp add: run_map_mag events_def fill_in.simps iq_to_complex_def offset_def upt_rec dft_2
        compute_amp_def double_to_int_def int_add_def INT_MIN_def INT_MAX_def)

subsection \<open>Dependence on the unwritten input slots\<close>

text \<open>
  Claim C5 says that two runs of the transform on the same batch under the same
  configuration emit the same bins. Two calls of \<^verbatim>\<open>create_fft\<close> with the same batch
  and the same globals, whose fresh input arrays differ in the slot that the conversion
  loop never writes, emit different values.
\<close>

theorem transform_depends_on_memory:
  "events (create_fft RtlFftx (\<lambda>_. 0) 2 [127, 127, 127, 127] (demo_globals True False))
     \<noteq> events (create_fft RtlFftx (\<lambda>_. 1) 2 [127, 127, 127, 127] (demo_globals True False))"
  by (simp add: run_mag_zero run_mag_one events_def)

subsection \<open>The plot channel\<close>

text \<open>
  Claim C8 says that per batch the plot channel receives the plot directive, then \<open>N\<close>
  data lines \<^verbatim>\<open><value><TAB><index>\<close>, then the end-of-data line, then a flush. In a run
  with \<open>N = 2\<close> the channel receives the directive, two calls with the format
  \<^verbatim>\<open>"%d<TAB>%f\n"\<close> and the arguments (level, index + 1), the line \<^verbatim>\<open>e\<close> and the flush.
  In both data calls \<^verbatim>\<open>%d\<close> meets the floating-point level and \<^verbatim>\<open>%f\<close> the integer:
  their text is undefined.
\<close>

theorem plot_lines_example:
  "filter (on_stream GnuplotPipe)
     (events (create_fft RtlFftx (\<lambda>_. 0) 2 [127, 127, 127, 127] (demo_globals True True)))
     = [Printf GnuplotPipe plot_directive [],
        Printf GnuplotPipe bin_format [ADbl (Fin 0), AInt 1],
        Printf GnuplotPipe bin_format [ADbl (Fin 0), AInt 2],
        Printf GnuplotPipe (''e'' @ [NL]) [],
        Flush GnuplotPipe]
   \<and> render showf bin_format [ADbl (Fin 0), AInt 1] = Mismatch
   \<and> render showf bin_format [ADbl (Fin 0), AInt 2] = Mismatch"
  by (simp add: run_plot events_def render_plot_line)

section \<open>Properties of start-up, loop and shutdown\<close>

subsection \<open>Gain selection\<close>

text \<open>
  An environment for concrete runs: one device whose tuner supports six gains, every
  call succeeds, every batch has \<open>nr * nr\<close> bytes 127 and every fresh input array is zero.
\<close>

definition demo_env :: "nat \<Rightarrow> env" where
  "demo_env nr =
     \<lparr>popen_ok = True, device_count = 1, device_name = (\<lambda>_. ''Generic RTL2832U''),
      open_result = 0, tuner_gains = [0, 9, 14, 27, 37, 77], reset_result = 0, fopen_ok = True,
      source = (\<lambda>_. replicate (nr * nr) 127), heap = (\<lambda>_ _. 0)\<rparr>"

text \<open>The window of \<^verbatim>\<open>if (gains[i] > 10 && gains[i] < 30)\<close>, in tenths of a dB.\<close>

definition in_gain_window :: "int \<Rightarrow> bool" where
  "in_gain_window x \<longleftrightarrow> 10 < x \<and> x < 30"

lemma select_gain_result:
  assumes "select_gain gs gn = (es, r)"
  shows "r = (if filter in_gain_window gs = [] then gn else last (filter in_gain_window gs))
       \<and> filter is_set_gain es = []"
  using assms
proof (induction gs arbitrary: gn es r)
  case Nil
  then show ?case by simp
next
  case (Cons x xs)
  obtain es' r' where rec: "select_gain xs (if 10 < x \<and> x < 30 then x else gn) = (es', r')"
    by (cases "select_gain xs (if 10 < x \<and> x < 30 then x else gn)")
  with Cons.prems have r: "r = r'"
    and es: "es = Printf Stderr ''%.1f '' [ADbl (Fin (real_of_int x / 10))] # es'"
    by simp_all
  from Cons.IH [OF rec] r es show ?case
    by (simp add: in_gain_window_def [of x])
qed

lemma list_devices_no_gain:
  "filter is_set_gain (list_devices v e g is) = []"
  by (induction "is") (auto simp: Let_def)

text \<open>
  Claim C10: in \<^verbatim>\<open>rtl_map.c\<close>, when a nonzero gain is configured, the gain applied to
  the device need not be the configured one: whenever the tuner's list of supported
  gains has an entry strictly between 10 and 30 tenths of a dB, \<^verbatim>\<open>configure_rtlsdr\<close>
  overwrites \<^verbatim>\<open>_gain\<close> with the last such entry and then applies it, in its only call
  of \<^verbatim>\<open>rtlsdr_set_tuner_gain\<close>.
\<close>

theorem gain_selection:
  assumes "device_count e \<noteq> 0" and "0 \<le> open_result e" and "gain g \<noteq> 0"
    and "filter in_gain_window (tuner_gains e) \<noteq> []"
  shows "\<exists>es g'. configure_rtlsdr RtlMap e g = (es, Ok g')
           \<and> gain g' = last (filter in_gain_window (tuner_gains e))
           \<and> filter is_set_gain es = [SetTunerGain (last (filter in_gain_window (tuner_gains e)))]"
proof -
  obtain es1 gn where sg: "select_gain (tuner_gains e) (gain g) = (es1, gn)"
    by (cases "select_gain (tuner_gains e) (gain g)")
  have gn: "gn = last (filter in_gain_window (tuner_gains e))"
    using select_gain_result [OF sg] assms(4) by simp
  have es1: "filter is_set_gain es1 = []"
    using select_gain_result [OF sg] by simp
  have ne: "tuner_gains e \<noteq> []"
    using assms(4) by auto
  show ?thesis
    using assms(1-3) ne sg gn es1
    by (simp add: configure_rtlsdr_def configure_gain_def seq_def list_devices_no_gain)
qed

text \<open>
  The theorem at a configured gain of 20 dB: the device is set to 2.7 dB.
\<close>

theorem gain_selection_witness:
  "device_count (demo_env 2) \<noteq> 0 \<and> 0 \<le> open_result (demo_env 2)
   \<and> gain ((initial_globals 2)\<lparr>gain := 200\<rparr>) \<noteq> 0
   \<and> filter in_gain_window (tuner_gains (demo_env 2)) = [14, 27]
   \<and> (\<exists>es g'. configure_rtlsdr RtlMap (demo_env 2) ((initial_globals 2)\<lparr>gain := 200\<rparr>) = (es, Ok g')
           \<and> gain g' = 27 \<and> filter is_set_gain es = [SetTunerGain 27])"
proof -
  have a: "device_count (demo_env 2) \<noteq> 0" and b: "0 \<le> open_result (demo_env 2)"
    and c: "gain ((initial_globals 2)\<lparr>gain := 200\<rparr>) \<noteq> 0"
    by (simp_all add: demo_env_def)
  have f: "filter in_gain_window (tuner_gains (demo_env 2)) = [14, 27]"
    by (simp add: demo_env_def in_gain_window_def)
  then have d: "filter in_gain_window (tuner_gains (demo_env 2)) \<noteq> []" by simp
  show ?thesis
    using a b c f gain_selection [OF a b c d] by simp
qed

subsection \<open>What the transform can do\<close>

lemma seq_Exit_iff:
  "seq m f = (es, Exit c g) \<longleftrightarrow>
     m = (es, Exit c g) \<or> (\<exists>es1 a es2. m = (es1, Ok a) \<and> f a = (es2, Exit c g) \<and> es = es1 @ es2)"
  by (cases m; cases "snd m") (auto simp: seq_def split: prod.splits status.splits)

text \<open>Every event of the transform is a write, a flush or a log line, and it never exits.\<close>

fun is_output :: "event \<Rightarrow> bool" where
  "is_output (Printf s fmt args) = True"
| "is_output (Flush s) = True"
| "is_output (Log l fmt args) = True"
| "is_output _ = False"

definition benign :: "'a result \<Rightarrow> bool" where
  "benign r \<longleftrightarrow> list_all is_output (fst r) \<and> (case snd r of Exit c g \<Rightarrow> False | _ \<Rightarrow> True)"

lemma benign_seq:
  assumes "benign m" and "\<And>a. benign (f a)"
  shows "benign (seq m f)"
proof (cases m)
  case (Pair es st)
  show ?thesis
  proof (cases st)
    case (Ok a)
    with Pair assms(1) assms(2) [of a] show ?thesis
      by (cases "f a") (simp add: benign_def seq_def)
  next
    case (Exit c g)
    with Pair assms(1) show ?thesis by (simp add: benign_def)
  next
    case (Undefined u)
    with Pair assms(1) show ?thesis by (simp add: benign_def seq_def)
  qed
qed

lemma benign_basic:
  "benign ([], Ok x)" "benign ([], Undefined u)" "benign skip"
  "benign (fprintf fp fmt args)" "benign (fflush fp)" "benign (gnuplot_exec g fmt args)"
  "benign (print_log l fmt args)"
  by (cases fp; simp add: benign_def skip_def fprintf_def fflush_def gnuplot_exec_def print_log_def;
      cases "gnuplotPipe g"; simp)+

lemma benign_bin_body: "benign (bin_body g out i sb)"
  unfolding bin_body_def Let_def
  by (cases "compute_amp (out ! i)") (auto intro!: benign_seq simp: benign_basic)

lemma benign_emit_bins: "benign (emit_bins g sample_c out i sb)"
proof (induction g sample_c out i sb rule: emit_bins.induct)
  case (1 g sample_c out i sb)
  show ?case
  proof (cases "i < sample_c")
    case True
    with "1.IH" show ?thesis
      by (subst emit_bins.simps) (auto intro!: benign_seq simp: benign_bin_body)
  next
    case False
    then show ?thesis by (subst emit_bins.simps) (simp add: benign_basic)
  qed
qed

lemma benign_create_fft_log: "benign (create_fft_log v g)"
  by (cases v) (simp_all add: create_fft_log_def benign_basic)

lemma benign_create_fft: "benign (create_fft v mem sample_c buf g)"
  unfolding create_fft_def
  by (cases "fill_in v sample_c buf 0 0 (map mem [0..<sample_c])"; cases v)
     (auto intro!: benign_seq simp: benign_basic benign_create_fft_log benign_emit_bins)

lemma create_fft_no_Exit: "create_fft v mem sample_c buf g \<noteq> (es, Exit c g')"
  using benign_create_fft [of v mem sample_c buf g] by (auto simp: benign_def)

lemma create_fft_no_request: "filter is_request (fst (create_fft v mem sample_c buf g)) = []"
proof -
  have "list_all is_output (fst (create_fft v mem sample_c buf g))"
    using benign_create_fft [of v mem sample_c buf g] by (simp add: benign_def)
  moreover have "is_output ev \<Longrightarrow> \<not> is_request ev" for ev
    by (cases ev) simp_all
  ultimately show ?thesis
    by (auto simp: filter_empty_conv list_all_iff)
qed

subsection \<open>The loop until exit\<close>

lemma do_exit_status:
  "snd (do_exit g) = Exit 0 g \<or> snd (do_exit g) = Undefined NullStream"
  by (cases "gnuplotPipe g"; cases "file_ptr g")
     (auto simp: do_exit_def seq_def pclose_def fclose_def skip_def)

lemma do_exit_Exit:
  assumes "do_exit g = (es, Exit c gf)"
  shows "c = 0" and "gf = g"
  using assms do_exit_status [of g] by auto

lemma create_fft_RtlMap_cont:
  assumes "create_fft RtlMap mem sample_c buf g = (es, Ok g1)"
  shows "cont_read g1 = cont_read g"
proof -
  have "cont_read (g1\<lparr>sample_bin := [], read_count := 0\<rparr>) = cont_read (g\<lparr>sample_bin := [], read_count := 0\<rparr>)"
    using create_fft_Ok(2) [OF assms] by simp
  then show ?thesis by simp
qed

lemma loop_exit:
  assumes "async_read_callback nr e g = (es, Exit c gf)" and "cont_read g"
  shows "c = 0 \<and> read_count gf = max (read_count g + 1) (num_read g)
       \<and> int (length (filter is_request es)) = max (read_count g + 1) (num_read g) - (read_count g + 1)
       \<and> (\<exists>es0. es = es0 @ Log INFO (''Done, exiting...'' @ [NL]) [] # fst (do_exit gf))
       \<and> snd (do_exit gf) = Exit 0 gf"
  using assms
proof (induction nr e g arbitrary: es rule: async_read_callback.induct)
  case (1 nr e g)
  let ?k = "nat (read_count g)"
  from "1.prems"(1) obtain es1 g1 es2 where
    fft: "create_fft RtlMap (heap e ?k) nr (source e ?k) g = (es1, Ok g1)"
    and body: "(if cont_read g1 \<and> read_count g1 < num_read g1
             then seq (if INT_MIN \<le> 1000 * refresh_rate g1 \<and> 1000 * refresh_rate g1 \<le> INT_MAX
                       then usleep (1000 * refresh_rate g1) else ([], Undefined SignedOverflow))
                    (\<lambda>_. seq (rtlsdr_read_async 0 (nr * nr)) (\<lambda>_. async_read_callback nr e g1))
             else seq (print_log INFO (''Done, exiting...'' @ [NL]) []) (\<lambda>_. do_exit g1)) = (es2, Exit c gf)"
    and es: "es = es1 @ es2"
    by (subst (asm) async_read_callback.simps) (auto simp: seq_Exit_iff create_fft_no_Exit)
  note m = create_fft_RtlMap_measure [OF fft]
  have cont: "cont_read g1" using create_fft_RtlMap_cont [OF fft] "1.prems"(2) by simp
  have noreq: "filter is_request es1 = []"
    using create_fft_no_request [of RtlMap "heap e ?k" nr "source e ?k" g] fft by simp
  show ?case
  proof (cases "read_count g1 < num_read g1")
    case True
    with body cont obtain es3 where
      range: "INT_MIN \<le> 1000 * refresh_rate g1 \<and> 1000 * refresh_rate g1 \<le> INT_MAX"
      and rec: "async_read_callback nr e g1 = (es3, Exit c gf)"
      and es2: "es2 = [USleep (1000 * refresh_rate g1), ReadAsync 0 (nr * nr)] @ es3"
      by (auto simp: seq_Exit_iff usleep_def rtlsdr_read_async_def split: if_splits)
    have sl: "(if INT_MIN \<le> 1000 * refresh_rate g1 \<and> 1000 * refresh_rate g1 \<le> INT_MAX
               then usleep (1000 * refresh_rate g1) else ([], Undefined SignedOverflow))
              = ([USleep (1000 * refresh_rate g1)], Ok ())"
      using range by (simp add: usleep_def)
    have rq: "rtlsdr_read_async 0 (nr * nr) = ([ReadAsync 0 (nr * nr)], Ok ())"
      by (simp add: rtlsdr_read_async_def)
    from True cont have c1: "cont_read g1 \<and> read_count g1 < num_read g1" by simp
    note IH = "1.IH" [OF fft c1 sl rq rec cont]
    show ?thesis
      using IH m True es es2 noreq by auto
  next
    case False
    with body cont have "\<exists>es3. do_exit g1 = (es3, Exit c gf)
        \<and> es2 = Log INFO (''Done, exiting...'' @ [NL]) [] # es3"
      by (auto simp: seq_Exit_iff print_log_def)
    then obtain es3 where
      ex: "do_exit g1 = (es3, Exit c gf)"
      and es2: "es2 = Log INFO (''Done, exiting...'' @ [NL]) [] # es3"
      by blast
    have noreq3: "filter is_request es3 = []"
      using ex by (cases "gnuplotPipe g1"; cases "file_ptr g1")
                  (auto simp: do_exit_def seq_def pclose_def fclose_def skip_def split: if_splits)
    from do_exit_Exit [OF ex] have c: "c = 0" and gf: "gf = g1" by simp_all
    have "es = es1 @ Log INFO (''Done, exiting...'' @ [NL]) [] # fst (do_exit gf)"
      using es es2 ex gf by simp
    moreover have "snd (do_exit gf) = Exit 0 gf"
      using ex gf c by simp
    ultimately show ?thesis
      using c gf m False es es2 noreq noreq3 by auto
  qed
qed

subsection \<open>Requests to the driver\<close>

text \<open>Requests to the driver: none in a result, or only requests of \<open>nr * nr\<close> bytes.\<close>

definition no_requests :: "'a result \<Rightarrow> bool" where
  "no_requests r \<longleftrightarrow> filter is_request (fst r) = []"

definition requests_ok :: "nat \<Rightarrow> 'a result \<Rightarrow> bool" where
  "requests_ok nr r \<longleftrightarrow> (\<forall>ev \<in> set (fst r). is_request ev \<longrightarrow> ev = ReadAsync 0 (nr * nr))"

lemma no_requests_seq:
  assumes "no_requests m" and "\<And>a. no_requests (f a)"
  shows "no_requests (seq m f)"
proof (cases m)
  case (Pair es st)
  show ?thesis
  proof (cases st)
    case (Ok a)
    with Pair assms(1) assms(2) [of a] show ?thesis
      by (cases "f a") (simp add: no_requests_def seq_def)
  next
    case (Exit c g)
    with Pair assms(1) show ?thesis by (simp add: no_requests_def seq_def)
  next
    case (Undefined u)
    with Pair assms(1) show ?thesis by (simp add: no_requests_def seq_def)
  qed
qed

lemma requests_ok_seq:
  assumes "requests_ok nr m" and "\<And>es a. m = (es, Ok a) \<Longrightarrow> requests_ok nr (f a)"
  shows "requests_ok nr (seq m f)"
proof (cases m)
  case (Pair es st)
  show ?thesis
  proof (cases st)
    case (Ok a)
    with Pair assms(1) assms(2) [of es a] show ?thesis
      by (cases "f a") (auto simp: requests_ok_def seq_def)
  next
    case (Exit c g)
    with Pair assms(1) show ?thesis by (simp add: requests_ok_def seq_def)
  next
    case (Undefined u)
    with Pair assms(1) show ?thesis by (simp add: requests_ok_def seq_def)
  qed
qed

lemma no_requests_ok: "no_requests r \<Longrightarrow> requests_ok nr r"
  by (auto simp: no_requests_def requests_ok_def filter_empty_conv)

lemma no_requests_basic:
  "no_requests ([], st)" "no_requests skip" "no_requests (print_log l fmt args)"
  "no_requests (fprintf fp fmt args)" "no_requests (gnuplot_exec g fmt args)"
  "no_requests (pclose fp)" "no_requests (fclose fp)" "no_requests (print_usage g)"
  by (cases fp; simp add: no_requests_def skip_def print_log_def fprintf_def gnuplot_exec_def
        pclose_def fclose_def print_usage_def; cases "gnuplotPipe g"; simp)+

lemma no_requests_parse_opt: "no_requests (parse_opt v x g)"
  by (cases x; cases v) (simp_all add: no_requests_basic)

lemma no_requests_parse_opts: "no_requests (parse_opts v xs g)"
  by (induction xs arbitrary: g) (auto intro!: no_requests_seq simp: no_requests_basic no_requests_parse_opt)

lemma no_requests_parse_args: "no_requests (parse_args v opts fname g)"
  unfolding parse_args_def
  by (auto intro!: no_requests_seq simp: no_requests_basic no_requests_parse_opts)

lemma no_requests_do_exit: "no_requests (do_exit g)"
  unfolding do_exit_def
  by (auto intro!: no_requests_seq simp: no_requests_basic) (simp_all add: no_requests_def)

lemma no_requests_configure_gnuplot: "no_requests (configure_gnuplot v nr e g)"
  unfolding configure_gnuplot_def Let_def
  by (auto intro!: no_requests_seq simp: no_requests_basic) (simp_all add: no_requests_def)

lemma list_devices_no_request: "filter is_request (list_devices v e g is) = []"
  by (induction "is") (auto simp: Let_def)

lemma select_gain_no_request:
  "select_gain gs gn = (es, r) \<Longrightarrow> filter is_request es = []"
proof (induction gs arbitrary: gn es r)
  case Nil
  then show ?case by simp
next
  case (Cons x xs)
  obtain es' r' where rec: "select_gain xs (if 10 < x \<and> x < 30 then x else gn) = (es', r')"
    by (cases "select_gain xs (if 10 < x \<and> x < 30 then x else gn)")
  with Cons.prems have "es = Printf Stderr ''%.1f '' [ADbl (Fin (real_of_int x / 10))] # es'"
    by simp
  with Cons.IH [OF rec] show ?case by simp
qed

lemma no_requests_configure_gain: "no_requests (configure_gain v e g)"
proof -
  obtain es r where sg: "select_gain (tuner_gains e) (gain g) = (es, r)"
    by (cases "select_gain (tuner_gains e) (gain g)")
  have pg: "filter is_request (print_gains gs) = []" for gs
    by (induction gs) (simp_all add: print_gains_def)
  show ?thesis
    using sg select_gain_no_request [OF sg] pg
    by (cases v) (simp_all add: configure_gain_def no_requests_def)
qed

lemma no_requests_configure_rtlsdr: "no_requests (configure_rtlsdr v e g)"
  unfolding configure_rtlsdr_def
  by (cases v)
     (auto intro!: no_requests_seq simp: no_requests_basic no_requests_configure_gain,
      simp_all add: no_requests_def list_devices_no_request)

lemma no_requests_open_file: "no_requests (open_file e g)"
  by (cases "filename g") (simp_all add: open_file_def no_requests_def)

lemma no_requests_run_steps:
  assumes "\<And>f g. f \<in> set fs \<Longrightarrow> no_requests (f g)"
  shows "no_requests (run_steps fs g)"
  using assms
  by (induction fs arbitrary: g) (auto intro!: no_requests_seq simp: no_requests_basic)

lemma no_requests_startup: "no_requests (run_steps (startup_steps v nr e) g)"
  by (rule no_requests_run_steps)
     (auto simp: startup_steps_def no_requests_configure_gnuplot no_requests_configure_rtlsdr
                 no_requests_open_file)

lemma requests_ok_callback: "requests_ok nr (async_read_callback nr e g)"
proof (induction nr e g rule: async_read_callback.induct)
  case (1 nr e g)
  have fft: "requests_ok nr (create_fft RtlMap (heap e (nat (read_count g))) nr (source e (nat (read_count g))) g)"
    using create_fft_no_request by (intro no_requests_ok) (simp add: no_requests_def)
  show ?case
  proof (subst async_read_callback.simps, rule requests_ok_seq [OF fft])
    fix es1 g1
    assume ok: "create_fft RtlMap (heap e (nat (read_count g))) nr (source e (nat (read_count g))) g = (es1, Ok g1)"
    show "requests_ok nr
            (if cont_read g1 \<and> read_count g1 < num_read g1
             then seq (if INT_MIN \<le> 1000 * refresh_rate g1 \<and> 1000 * refresh_rate g1 \<le> INT_MAX
                       then usleep (1000 * refresh_rate g1) else ([], Undefined SignedOverflow))
                    (\<lambda>_. seq (rtlsdr_read_async 0 (nr * nr)) (\<lambda>_. async_read_callback nr e g1))
             else seq (print_log INFO (''Done, exiting...'' @ [NL]) []) (\<lambda>_. do_exit g1))"
    proof (cases "cont_read g1 \<and> read_count g1 < num_read g1")
      case False
      have "no_requests (seq (print_log INFO (''Done, exiting...'' @ [NL]) []) (\<lambda>_. do_exit g1))"
        by (intro no_requests_seq) (simp_all add: no_requests_basic no_requests_do_exit)
      then show ?thesis by (subst if_not_P [OF False]) (rule no_requests_ok)
    next
      case True
      have sleep: "requests_ok nr (if INT_MIN \<le> 1000 * refresh_rate g1 \<and> 1000 * refresh_rate g1 \<le> INT_MAX
                       then usleep (1000 * refresh_rate g1) else ([], Undefined SignedOverflow))"
        by (simp add: requests_ok_def usleep_def)
      have req: "requests_ok nr (rtlsdr_read_async 0 (nr * nr))"
        by (simp add: requests_ok_def rtlsdr_read_async_def)
      have "requests_ok nr
              (seq (if INT_MIN \<le> 1000 * refresh_rate g1 \<and> 1000 * refresh_rate g1 \<le> INT_MAX
                       then usleep (1000 * refresh_rate g1) else ([], Undefined SignedOverflow))
                    (\<lambda>_. seq (rtlsdr_read_async 0 (nr * nr)) (\<lambda>_. async_read_callback nr e g1)))"
      proof (rule requests_ok_seq [OF sleep], rule requests_ok_seq [OF req])
        fix es2 u es3 u'
        assume s: "(if INT_MIN \<le> 1000 * refresh_rate g1 \<and> 1000 * refresh_rate g1 \<le> INT_MAX
                       then usleep (1000 * refresh_rate g1) else ([], Undefined SignedOverflow)) = (es2, Ok u)"
          and r: "rtlsdr_read_async 0 (nr * nr) = (es3, Ok u')"
        show "requests_ok nr (async_read_callback nr e g1)"
          by (rule "1.IH" [OF ok True s r])
      qed
      then show ?thesis by (subst if_P [OF True])
    qed
  qed
qed

text \<open>
  Claim C7 says that every batch request asks for exactly \<open>2N\<close> bytes. As amended:
  every request that \<^verbatim>\<open>main\<close> and the callback issue, in any run, is
  \<^verbatim>\<open>rtlsdr_read_async(dev, async_read_callback, NULL, 0, n_read * n_read)\<close>: it asks for
  exactly \<open>N * N\<close> bytes (262144 for \<open>N = 512\<close>).
\<close>

theorem request_length:
  "\<forall>ev \<in> set (events (main nr e opts fname)). is_request ev \<longrightarrow> ev = ReadAsync 0 (nr * nr)"
proof -
  have req: "requests_ok nr (rtlsdr_read_async 0 (nr * nr))"
    by (simp add: requests_ok_def rtlsdr_read_async_def)
  have "requests_ok nr (main nr e opts fname)"
    unfolding main_def
  proof (rule requests_ok_seq [OF no_requests_ok [OF no_requests_parse_args]],
         rule requests_ok_seq [OF no_requests_ok [OF no_requests_startup]],
         rule requests_ok_seq [OF req])
    fix g1
    show "requests_ok nr (async_read_callback nr e g1)"
      by (rule requests_ok_callback)
  qed
  then show ?thesis by (simp add: requests_ok_def events_def)
qed

subsection \<open>Runs of the loop\<close>

text \<open>
  Concrete runs with \<open>N = 2\<close>: the globals after \<^verbatim>\<open>-f 100000000 -D -C -n K\<close> and
  start-up in \<open>demo_env 2\<close>, the bins of a batch of bytes 127 in level mode, and a view
  of a run's end (exit status and \<^verbatim>\<open>read_count\<close>).
\<close>

definition demo_start :: "int \<Rightarrow> globals" where
  "demo_start K =
     (initial_globals 2)\<lparr>center_freq := 100000000, use_gnuplot := False, cont_read := True,
        num_read := K, gain := 27, dev := Some 0\<rparr>"

definition demo_bins :: "Bin list" where
  "demo_bins = [\<lparr>bin_val = NegInf, bin_id = 0\<rparr>, \<lparr>bin_val = NegInf, bin_id = 1\<rparr>]"

definition exit_view :: "'a result \<Rightarrow> (int \<times> int) option" where
  "exit_view r = (case snd r of Exit c g \<Rightarrow> Some (c, read_count g) | _ \<Rightarrow> None)"

lemma callback_continue:
  assumes "create_fft RtlMap (heap e (nat (read_count g))) nr (source e (nat (read_count g))) g = (es1, Ok g1)"
    and "cont_read g1" and "read_count g1 < num_read g1"
    and "INT_MIN \<le> 1000 * refresh_rate g1" and "1000 * refresh_rate g1 \<le> INT_MAX"
  shows "async_read_callback nr e g
           = (es1 @ [USleep (1000 * refresh_rate g1), ReadAsync 0 (nr * nr)] @ fst (async_read_callback nr e g1),
              snd (async_read_callback nr e g1))"
  using assms
  by (subst async_read_callback.simps)
     (cases "async_read_callback nr e g1", simp add: seq_def usleep_def rtlsdr_read_async_def)

lemma callback_stop:
  assumes "create_fft RtlMap (heap e (nat (read_count g))) nr (source e (nat (read_count g))) g = (es1, Ok g1)"
    and "\<not> (cont_read g1 \<and> read_count g1 < num_read g1)"
  shows "async_read_callback nr e g
           = (es1 @ Log INFO (''Done, exiting...'' @ [NL]) [] # fst (do_exit g1), snd (do_exit g1))"
  using assms(1)
  by (subst async_read_callback.simps)
     (cases "do_exit g1", simp add: seq_def print_log_def if_not_P [OF assms(2)])

lemma main_run:
  assumes "parse_args RtlMap opts fname (initial_globals nr) = (es0, Ok g0)"
    and "run_steps (startup_steps RtlMap nr e) g0 = (es1, Ok g1)"
  shows "main nr e opts fname
           = (es0 @ es1 @ ReadAsync 0 (nr * nr) # fst (async_read_callback nr e g1),
              snd (async_read_callback nr e g1))"
  using assms by (simp add: main_def seq_def rtlsdr_read_async_def split: prod.splits)

lemma demo_parse:
  "parse_args RtlMap [Opt_f 100000000, Opt_D, Opt_C, Opt_n K] None (initial_globals 2)
     = ([], Ok ((initial_globals 2)\<lparr>center_freq := 100000000, use_gnuplot := False, cont_read := True,
                  num_read := K\<rparr>))"
  by (simp add: parse_args_def seq_def initial_globals_def)

lemma demo_startup:
  "snd (run_steps (startup_steps RtlMap 2 (demo_env 2))
          ((initial_globals 2)\<lparr>center_freq := 100000000, use_gnuplot := False, cont_read := True,
                  num_read := K\<rparr>))
     = Ok (demo_start K)"
  by (simp add: startup_steps_def configure_gnuplot_def configure_rtlsdr_def configure_gain_def
        open_file_def seq_def demo_env_def initial_globals_def demo_start_def split: prod.splits)

lemma demo_fft:
  assumes "\<not> use_gnuplot g" and "\<not> write_file g" and "cont_read g" and "\<not> mag_graph g"
    and "length (sample_bin g) = 2" and "read_count g < INT_MAX"
  shows "create_fft RtlMap (heap (demo_env 2) k) 2 (source (demo_env 2) k) g
           = ([], Ok (g\<lparr>sample_bin := demo_bins, read_count := read_count g + 1\<rparr>))"
proof -
  from assms(5) obtain a b where sb: "sample_bin g = [a, b]"
    by (cases "sample_bin g"; cases "tl (sample_bin g)") auto
  have src: "source (demo_env 2) k = [127, 127, 127, 127]"
    by (simp add: demo_env_def numeral_eq_Suc)
  have hp: "heap (demo_env 2) k = (\<lambda>_. 0)"
    by (simp add: demo_env_def)
  show ?thesis
    using assms(1-4,6) sb
    by (simp add: src hp create_fft_def fill_in.simps iq_to_complex_def offset_def seq_def skip_def
          create_fft_log_def emit_bins.simps bin_body_def compute_amp_def double_to_int_def
          int_add_def INT_MIN_def INT_MAX_def compute_db_def c_log10_def fmul_def upt_rec dft_2
          Let_def demo_bins_def zero_complex.code)
qed

lemma demo_start_fields:
  "cont_read (demo_start K)" "num_read (demo_start K) = K" "refresh_rate (demo_start K) = 500"
  "\<not> use_gnuplot (demo_start K)" "\<not> write_file (demo_start K)" "\<not> mag_graph (demo_start K)"
  "filename (demo_start K) = None" "read_count (demo_start K) = 0"
  by (simp_all add: demo_start_def initial_globals_def)

lemma demo_step:
  assumes "0 \<le> r" and "r < INT_MAX" and "length sb = 2"
  shows "create_fft RtlMap (heap (demo_env 2) (nat (read_count ((demo_start K)\<lparr>sample_bin := sb, read_count := r\<rparr>)))) 2
            (source (demo_env 2) (nat (read_count ((demo_start K)\<lparr>sample_bin := sb, read_count := r\<rparr>))))
            ((demo_start K)\<lparr>sample_bin := sb, read_count := r\<rparr>)
         = ([], Ok ((demo_start K)\<lparr>sample_bin := demo_bins, read_count := r + 1\<rparr>))"
  using demo_fft [of "(demo_start K)\<lparr>sample_bin := sb, read_count := r\<rparr>"] assms
  by (simp add: demo_start_def initial_globals_def)

lemma demo_exit:
  "do_exit ((demo_start K)\<lparr>sample_bin := sb, read_count := r\<rparr>)
     = ([CancelAsync], Exit 0 ((demo_start K)\<lparr>sample_bin := sb, read_count := r\<rparr>))"
  by (simp add: do_exit_def seq_def skip_def demo_start_def initial_globals_def)

lemma demo_start_eq: "demo_start K = (demo_start K)\<lparr>sample_bin := replicate 2 \<lparr>bin_val = Fin 0, bin_id = 0\<rparr>, read_count := 0\<rparr>"
  by (simp add: demo_start_def initial_globals_def)

lemma demo_loop_3:
  "async_read_callback 2 (demo_env 2) (demo_start 3)
     = ([USleep 500000, ReadAsync 0 4, USleep 500000, ReadAsync 0 4,
         Log INFO (''Done, exiting...'' @ [NL]) [], CancelAsync],
        Exit 0 ((demo_start 3)\<lparr>sample_bin := demo_bins, read_count := 3\<rparr>))"
proof -
  let ?g = "\<lambda>sb r. (demo_start 3)\<lparr>sample_bin := sb, read_count := r\<rparr>"
  have s3: "async_read_callback 2 (demo_env 2) (?g demo_bins 2)
      = ([Log INFO (''Done, exiting...'' @ [NL]) [], CancelAsync], Exit 0 (?g demo_bins 3))"
    by (subst callback_stop [OF demo_step])
       (simp_all add: INT_MAX_def demo_bins_def demo_exit demo_start_fields)
  have s2: "async_read_callback 2 (demo_env 2) (?g demo_bins 1)
      = ([USleep 500000, ReadAsync 0 4, Log INFO (''Done, exiting...'' @ [NL]) [], CancelAsync],
         Exit 0 (?g demo_bins 3))"
    by (subst callback_continue [OF demo_step])
       (simp_all add: INT_MAX_def INT_MIN_def s3 demo_start_fields, simp add: demo_bins_def)
  have s1: "async_read_callback 2 (demo_env 2) (?g (replicate 2 \<lparr>bin_val = Fin 0, bin_id = 0\<rparr>) 0)
      = ([USleep 500000, ReadAsync 0 4, USleep 500000, ReadAsync 0 4,
          Log INFO (''Done, exiting...'' @ [NL]) [], CancelAsync],
         Exit 0 (?g demo_bins 3))"
    by (subst callback_continue [OF demo_step])
       (simp_all add: INT_MAX_def INT_MIN_def s2 demo_start_fields)
  show ?thesis
    by (subst demo_start_eq) (rule s1)
qed

lemma demo_loop_0:
  "async_read_callback 2 (demo_env 2) (demo_start 0)
     = ([Log INFO (''Done, exiting...'' @ [NL]) [], CancelAsync],
        Exit 0 ((demo_start 0)\<lparr>sample_bin := demo_bins, read_count := 1\<rparr>))"
proof -
  let ?g = "\<lambda>sb r. (demo_start 0)\<lparr>sample_bin := sb, read_count := r\<rparr>"
  have "async_read_callback 2 (demo_env 2) (?g (replicate 2 \<lparr>bin_val = Fin 0, bin_id = 0\<rparr>) 0)
      = ([Log INFO (''Done, exiting...'' @ [NL]) [], CancelAsync], Exit 0 (?g demo_bins 1))"
    by (subst callback_stop [OF demo_step])
       (simp_all add: INT_MAX_def demo_exit demo_start_fields)
  then show ?thesis
    by (subst demo_start_eq)
qed

lemma demo_main:
  shows "snd (main 2 (demo_env 2) [Opt_f 100000000, Opt_D, Opt_C, Opt_n K] None)
     = snd (async_read_callback 2 (demo_env 2) (demo_start K))"
  and "ReadAsync 0 4 \<in> set (fst (main 2 (demo_env 2) [Opt_f 100000000, Opt_D, Opt_C, Opt_n K] None))"
proof -
  obtain es1 where st: "run_steps (startup_steps RtlMap 2 (demo_env 2))
          ((initial_globals 2)\<lparr>center_freq := 100000000, use_gnuplot := False, cont_read := True,
                  num_read := K\<rparr>) = (es1, Ok (demo_start K))"
    using demo_startup [of K] by (metis prod.collapse)
  note m = main_run [OF demo_parse st]
  show "snd (main 2 (demo_env 2) [Opt_f 100000000, Opt_D, Opt_C, Opt_n K] None)
     = snd (async_read_callback 2 (demo_env 2) (demo_start K))"
    by (simp add: m)
  show "ReadAsync 0 4 \<in> set (fst (main 2 (demo_env 2) [Opt_f 100000000, Opt_D, Opt_C, Opt_n K] None))"
    by (simp add: m)
qed

text \<open>
  Claim C6 says that in continuous mode with maximum batch count \<open>K\<close> the loop invokes
  the transform exactly \<open>K\<close> times and then shuts down, never \<open>K + 1\<close> times. The
  callback is a total function; a run of it from \<^verbatim>\<open>read_count = 0\<close> either reaches
  undefined behaviour or exits. \<^verbatim>\<open>read_count\<close> is incremented by each call of
  \<^verbatim>\<open>create_fft\<close> (\<open>create_fft_RtlMap_measure\<close>) and by nothing else, and it is
  compared with the maximum only after a transform. As amended: in continuous mode a run
  that exits has invoked the transform exactly \<open>max 1 K\<close> times (\<open>K\<close> times when
  \<open>K \<ge> 1\<close>, once when \<open>K \<le> 0\<close>), has issued \<open>max 1 K - 1\<close> requests after the one of
  \<^verbatim>\<open>main\<close>, and ends with the log line and \<^verbatim>\<open>do_exit\<close>, which exits with status 0.
\<close>

theorem bounded_continuous_loop:
  assumes "cont_read g" and "read_count g = 0" and "async_read_callback nr e g = (es, Exit c gf)"
  shows "c = 0 \<and> read_count gf = max 1 (num_read g)
       \<and> int (length (filter is_request es)) = max 1 (num_read g) - 1
       \<and> (\<exists>es0. es = es0 @ Log INFO (''Done, exiting...'' @ [NL]) [] # fst (do_exit gf))
       \<and> snd (do_exit gf) = Exit 0 gf"
  using loop_exit [OF assms(3) assms(1)] assms(2) by simp

text \<open>The theorem at a run with \<open>K = 3\<close> and \<open>N = 2\<close>: three transforms, then shutdown.\<close>

theorem bounded_continuous_loop_witness:
  "cont_read (demo_start 3) \<and> read_count (demo_start 3) = 0
   \<and> async_read_callback 2 (demo_env 2) (demo_start 3)
       = ([USleep 500000, ReadAsync 0 4, USleep 500000, ReadAsync 0 4,
           Log INFO (''Done, exiting...'' @ [NL]) [], CancelAsync],
          Exit 0 ((demo_start 3)\<lparr>sample_bin := demo_bins, read_count := 3\<rparr>))
   \<and> read_count ((demo_start 3)\<lparr>sample_bin := demo_bins, read_count := 3\<rparr>) = max 1 (num_read (demo_start 3))
   \<and> int (length (filter is_request [USleep 500000, ReadAsync 0 4, USleep 500000, ReadAsync 0 4,
           Log INFO (''Done, exiting...'' @ [NL]) [], CancelAsync])) = max 1 (num_read (demo_start 3)) - 1"
proof -
  have a: "cont_read (demo_start 3)" and b: "read_count (demo_start 3) = 0"
    by (simp_all add: demo_start_def initial_globals_def)
  from a b demo_loop_3 bounded_continuous_loop [OF a b demo_loop_3] show ?thesis
    by blast
qed

text \<open>
  Against claim C6 as stated: with \<^verbatim>\<open>-C -n 0\<close> the program exits with status 0 and
  \<^verbatim>\<open>read_count = 1\<close>: one transform was invoked, the \<open>(K+1)\<close>-th for \<open>K = 0\<close>.
\<close>

theorem zero_batch_limit_counterexample:
  "exit_view (main 2 (demo_env 2) [Opt_f 100000000, Opt_D, Opt_C, Opt_n 0] None) = Some (0, 1)"
  by (simp add: exit_view_def demo_main(1) demo_loop_0)

subsection \<open>Shutdown\<close>

text \<open>
  The sinks as start-up leaves them: the pipe is open if gnuplot is in use, and
  \<^verbatim>\<open>file\<close> is the stream that belongs to \<^verbatim>\<open>_filename\<close>.
\<close>

definition sinks_ready :: "globals \<Rightarrow> bool" where
  "sinks_ready g \<longleftrightarrow>
     (use_gnuplot g \<longrightarrow> gnuplotPipe g = Some GnuplotPipe)
     \<and> file_ptr g = (case filename g of
                      None \<Rightarrow> None
                    | Some name \<Rightarrow> Some (if name = ''-'' then Stdout else RegularFile name))"

lemma initial_fields:
  "read_count (initial_globals nr) = 0" "center_freq (initial_globals nr) = 0"
  "dev_id (initial_globals nr) = 0" "samp_rate (initial_globals nr) = int nr * 4000"
  "gain (initial_globals nr) = 14" "refresh_rate (initial_globals nr) = 500"
  "num_read (initial_globals nr) = INT_MAX" "use_gnuplot (initial_globals nr)"
  "\<not> cont_read (initial_globals nr)" "\<not> mag_graph (initial_globals nr)"
  "offset_tuning (initial_globals nr)" "log_colors (initial_globals nr)"
  "\<not> write_file (initial_globals nr)" "filename (initial_globals nr) = None"
  "file_ptr (initial_globals nr) = None" "gnuplotPipe (initial_globals nr) = None"
  "dev (initial_globals nr) = None"
  by (simp_all add: initial_globals_def)

lemma parse_opt_streams:
  "parse_opt v x g = (es, Ok g') \<Longrightarrow> gnuplotPipe g' = gnuplotPipe g \<and> file_ptr g' = file_ptr g"
  by (cases x; cases v) (auto simp: print_usage_def)

lemma parse_opts_streams:
  "parse_opts v xs g = (es, Ok g') \<Longrightarrow> gnuplotPipe g' = gnuplotPipe g \<and> file_ptr g' = file_ptr g"
proof (induction xs arbitrary: g es)
  case Nil
  then show ?case by simp
next
  case (Cons x xs)
  from Cons.prems obtain es1 g1 es2 where
    a: "parse_opt v x g = (es1, Ok g1)" and b: "parse_opts v xs g1 = (es2, Ok g')"
    by (auto simp: seq_Ok_iff)
  from parse_opt_streams [OF a] Cons.IH [OF b] show ?case by simp
qed

lemma parse_args_streams:
  assumes "parse_args v opts fname (initial_globals nr) = (es, Ok g)"
  shows "gnuplotPipe g = None \<and> file_ptr g = None \<and> filename g = fname"
proof -
  from assms obtain es1 g1 where
    a: "parse_opts v opts (initial_globals nr) = (es1, Ok g1)" and g: "g = g1\<lparr>filename := fname\<rparr>"
    by (auto simp: parse_args_def seq_Ok_iff print_usage_def split: if_splits)
  from parse_opts_streams [OF a] g show ?thesis by (simp add: initial_fields)
qed

lemma configure_gnuplot_streams:
  assumes "configure_gnuplot v nr e g = (es, Ok g')"
  shows "filename g' = filename g \<and> file_ptr g' = file_ptr g \<and> use_gnuplot g' = use_gnuplot g
       \<and> (use_gnuplot g' \<longrightarrow> gnuplotPipe g' = Some GnuplotPipe)"
  using assms
  by (auto simp: configure_gnuplot_def Let_def seq_Ok_iff split: if_splits)

lemma configure_gain_streams:
  assumes "configure_gain v e g = (es, Ok g')"
  shows "filename g' = filename g \<and> file_ptr g' = file_ptr g \<and> use_gnuplot g' = use_gnuplot g
       \<and> gnuplotPipe g' = gnuplotPipe g"
  using assms
  by (cases v) (auto simp: configure_gain_def split: if_splits prod.splits)

lemma configure_rtlsdr_streams:
  assumes "configure_rtlsdr v e g = (es, Ok g')"
  shows "filename g' = filename g \<and> file_ptr g' = file_ptr g \<and> use_gnuplot g' = use_gnuplot g
       \<and> gnuplotPipe g' = gnuplotPipe g"
proof -
  from assms obtain es1 g2 where "configure_gain v e (g\<lparr>dev := Some (dev_id g)\<rparr>) = (es1, Ok g2)"
    and "g' = g2"
    by (auto simp: configure_rtlsdr_def seq_Ok_iff split: if_splits)
  with configure_gain_streams [of v e "g\<lparr>dev := Some (dev_id g)\<rparr>" es1 g2] show ?thesis by simp
qed

lemma open_file_streams:
  assumes "open_file e g = (es, Ok g')"
  shows "filename g' = filename g \<and> use_gnuplot g' = use_gnuplot g \<and> gnuplotPipe g' = gnuplotPipe g
       \<and> (case filename g of
             None \<Rightarrow> file_ptr g' = file_ptr g
           | Some name \<Rightarrow> file_ptr g' = Some (if name = ''-'' then Stdout else RegularFile name))"
  using assms
  by (cases "filename g") (auto simp: open_file_def split: if_splits)

lemma startup_sinks_ready:
  assumes "parse_args v opts fname (initial_globals nr) = (es0, Ok g0)"
    and "run_steps (startup_steps v nr e) g0 = (es1, Ok g)"
  shows "sinks_ready g"
proof -
  from assms(2) obtain a1 g1 a2 g2 a3 where
    s1: "configure_gnuplot v nr e g0 = (a1, Ok g1)"
    and s2: "configure_rtlsdr v e g1 = (a2, Ok g2)"
    and s3: "open_file e g2 = (a3, Ok g)"
    by (auto simp: startup_steps_def seq_Ok_iff)
  from parse_args_streams [OF assms(1)] configure_gnuplot_streams [OF s1]
    configure_rtlsdr_streams [OF s2] open_file_streams [OF s3]
  show ?thesis
    by (cases fname) (simp_all add: sinks_ready_def)
qed

lemma create_fft_sinks_ready:
  assumes "create_fft v mem sample_c buf g = (es, Ok g1)" and "sinks_ready g"
  shows "sinks_ready g1"
proof -
  have "sinks_ready (g1\<lparr>sample_bin := [], read_count := 0\<rparr>) = sinks_ready (g\<lparr>sample_bin := [], read_count := 0\<rparr>)"
    using create_fft_Ok(2) [OF assms(1), where sb = "[]" and rc = 0] by simp
  with assms(2) show ?thesis by (simp add: sinks_ready_def)
qed

lemma do_exit_ready:
  assumes "sinks_ready g"
  shows "do_exit g
           = ([CancelAsync] @ (if use_gnuplot g then [PClose GnuplotPipe] else [])
                @ (case filename g of
                     None \<Rightarrow> []
                   | Some name \<Rightarrow> if name = ''-'' then [] else [FClose (RegularFile name)]),
              Exit 0 g)"
  using assms
  by (cases "filename g")
     (auto simp: sinks_ready_def do_exit_def seq_def skip_def pclose_def fclose_def)

text \<open>
  Shutdown in a state where the sinks are ready, as start-up leaves them
  (\<open>startup_sinks_ready\<close>) and the transform keeps them (\<open>create_fft_sinks_ready\<close>):
  \<^verbatim>\<open>do_exit\<close> terminates the process with status 0, and it closes the file sink exactly
  when a file name other than \<^verbatim>\<open>-\<close> was given; the stream it closes is then the open
  regular file and never standard output.
\<close>

theorem shutdown_when_ready:
  assumes "sinks_ready g"
  shows "snd (do_exit g) = Exit 0 g
       \<and> filter is_fclose (events (do_exit g))
           = (case filename g of
                None \<Rightarrow> []
              | Some name \<Rightarrow> if name = ''-'' then [] else [FClose (RegularFile name)])
       \<and> (\<forall>s. FClose s \<in> set (events (do_exit g)) \<longrightarrow> file_ptr g = Some s \<and> s \<noteq> Stdout)"
  using assms
  by (cases "filename g") (auto simp: do_exit_ready events_def sinks_ready_def split: if_splits)

text \<open>
  The globals after \<^verbatim>\<open>-f 100000000 -D out.txt\<close> and start-up (\<open>demo_file_startup\<close>),
  and shutdown there.
\<close>

definition demo_file_globals :: globals where
  "demo_file_globals =
     (initial_globals 2)\<lparr>center_freq := 100000000, gain := 27, use_gnuplot := False,
        write_file := True, filename := Some ''out.txt'', file_ptr := Some (RegularFile ''out.txt''),
        dev := Some 0\<rparr>"

theorem shutdown_when_ready_witness:
  "sinks_ready demo_file_globals
   \<and> snd (do_exit demo_file_globals) = Exit 0 demo_file_globals
   \<and> filter is_fclose (events (do_exit demo_file_globals)) = [FClose (RegularFile ''out.txt'')]
   \<and> FClose (RegularFile ''out.txt'') \<in> set (events (do_exit demo_file_globals))
   \<and> file_ptr demo_file_globals = Some (RegularFile ''out.txt'')
   \<and> RegularFile ''out.txt'' \<noteq> Stdout"
proof -
  have r: "sinks_ready demo_file_globals"
    by (simp add: sinks_ready_def demo_file_globals_def initial_globals_def)
  have f: "filename demo_file_globals = Some ''out.txt''"
    by (simp add: demo_file_globals_def)
  have c: "FClose (RegularFile ''out.txt'') \<in> set (events (do_exit demo_file_globals))"
    by (simp add: do_exit_ready [OF r] f events_def)
  from r c shutdown_when_ready [OF r] show ?thesis
    by (simp add: f)
qed

lemma demo_file_startup:
  "snd (parse_args RtlMap [Opt_f 100000000, Opt_D] (Some ''out.txt'') (initial_globals 2))
     = Ok ((initial_globals 2)\<lparr>center_freq := 100000000, use_gnuplot := False, filename := Some ''out.txt''\<rparr>)"
  "snd (run_steps (startup_steps RtlMap 2 (demo_env 2))
          ((initial_globals 2)\<lparr>center_freq := 100000000, use_gnuplot := False, filename := Some ''out.txt''\<rparr>))
     = Ok demo_file_globals"
  by (simp_all add: parse_args_def startup_steps_def configure_gnuplot_def configure_rtlsdr_def
        configure_gain_def open_file_def seq_def demo_env_def initial_globals_def demo_file_globals_def
        split: prod.splits)

text \<open>
  Claim C9 says that the shutdown sequence closes the file sink only when it is open and
  is not the standard-output alias, and always terminates the process with status 0.
  \<^verbatim>\<open>do_exit\<close> tests \<^verbatim>\<open>_filename\<close>, not \<^verbatim>\<open>file\<close>, and \<^verbatim>\<open>main\<close> registers the
  signal handler before it opens the sinks. Run \<^verbatim>\<open>rtl_map -f 100000000 out.txt\<close> and
  let a signal arrive when \<^verbatim>\<open>configure_gnuplot\<close> and \<^verbatim>\<open>configure_rtlsdr\<close> have
  returned but \<^verbatim>\<open>open_file\<close> has not run: \<^verbatim>\<open>_filename\<close> is set, \<^verbatim>\<open>file\<close> is still
  null, and the handler's \<^verbatim>\<open>do_exit\<close> calls \<^verbatim>\<open>fclose\<close> on a file that is not open.
  That is undefined behaviour, and no exit with status 0 follows. The same signal after
  \<^verbatim>\<open>open_file\<close> closes the open file and exits with status 0.
\<close>

theorem signal_before_open_file:
  "snd (main_interrupted RtlMap NUM_READ (demo_env NUM_READ) [Opt_f 100000000] (Some ''out.txt'') 2)
     = Undefined NullStream
   \<and> filter is_fclose
         (events (main_interrupted RtlMap NUM_READ (demo_env NUM_READ) [Opt_f 100000000] (Some ''out.txt'') 3))
       = [FClose (RegularFile ''out.txt'')]
   \<and> exit_view (main_interrupted RtlMap NUM_READ (demo_env NUM_READ) [Opt_f 100000000] (Some ''out.txt'') 3)
       = Some (0, 0)"
  by (simp add: main_interrupted_def parse_args_def startup_steps_def configure_gnuplot_def
        configure_rtlsdr_def configure_gain_def open_file_def sig_handler_def do_exit_def seq_def
        demo_env_def initial_fields gnuplot_exec_def fprintf_def print_log_def pclose_def
        fclose_def skip_def exit_view_def events_def Let_def split: prod.splits)

lemma main_first_request:
  assumes "snd (parse_args RtlMap opts fname (initial_globals nr)) = Ok g0"
    and "snd (run_steps (startup_steps RtlMap nr e) g0) = Ok g1"
  shows "ReadAsync 0 (nr * nr) \<in> set (events (main nr e opts fname))"
proof -
  from assms obtain es0 es1 where
    p: "parse_args RtlMap opts fname (initial_globals nr) = (es0, Ok g0)"
    and s: "run_steps (startup_steps RtlMap nr e) g0 = (es1, Ok g1)"
    by (metis prod.collapse)
  show ?thesis by (simp add: main_run [OF p s] events_def)
qed

text \<open>
  The program as built (\<open>N = 512\<close>), run with \<^verbatim>\<open>-f 100000000 -D\<close>: start-up succeeds and
  \<^verbatim>\<open>main\<close> issues its request.
\<close>

lemma built_program_request:
  "ReadAsync 0 (NUM_READ * NUM_READ)
     \<in> set (events (main NUM_READ (demo_env NUM_READ) [Opt_f 100000000, Opt_D] None))"
proof -
  have p: "snd (parse_args RtlMap [Opt_f 100000000, Opt_D] None (initial_globals NUM_READ))
            = Ok ((initial_globals NUM_READ)\<lparr>center_freq := 100000000, use_gnuplot := False, filename := None\<rparr>)"
    by (simp add: parse_args_def seq_def)
  have s: "snd (run_steps (startup_steps RtlMap NUM_READ (demo_env NUM_READ))
             ((initial_globals NUM_READ)\<lparr>center_freq := 100000000, use_gnuplot := False, filename := None\<rparr>))
            = Ok ((initial_globals NUM_READ)\<lparr>center_freq := 100000000, gain := 27, use_gnuplot := False,
                    filename := None, dev := Some 0\<rparr>)"
    by (simp add: startup_steps_def configure_gnuplot_def configure_rtlsdr_def configure_gain_def
          open_file_def seq_def demo_env_def initial_fields split: prod.splits)
  from main_first_request [OF p s] show ?thesis .
qed

text \<open>
  The theorem of claim C7 at that request: it is a request, it occurs in the run, and it
  asks for \<open>512 * 512 = 262144\<close> bytes.
\<close>

theorem request_length_witness:
  "ReadAsync 0 262144 \<in> set (events (main NUM_READ (demo_env NUM_READ) [Opt_f 100000000, Opt_D] None))
   \<and> is_request (ReadAsync 0 262144)
   \<and> ReadAsync 0 262144 = ReadAsync 0 (NUM_READ * NUM_READ)"
proof -
  have eq: "ReadAsync 0 262144 = ReadAsync 0 (NUM_READ * NUM_READ)"
    by (simp add: NUM_READ_def)
  have m: "ReadAsync 0 262144 \<in> set (events (main NUM_READ (demo_env NUM_READ) [Opt_f 100000000, Opt_D] None))"
    using built_program_request by (simp only: eq)
  have r: "is_request (ReadAsync 0 262144)" by simp
  from request_length [rule_format, OF m r] m r show ?thesis by simp
qed

text \<open>
  Against claim C7 as stated: the program as built (\<open>N = 512\<close>) requests 262144 bytes,
  not \<open>2N = 1024\<close>.
\<close>

theorem request_length_counterexample:
  "ReadAsync 0 262144 \<in> set (events (main NUM_READ (demo_env NUM_READ) [Opt_f 100000000, Opt_D] None))
   \<and> (262144 :: nat) \<noteq> 2 * NUM_READ"
  using built_program_request by (simp add: NUM_READ_def)

end
